theory Spec2Isabelle
  imports Complex_Main
begin

section \<open>PDF triage: a model of \<open>pdf_triage_main.py\<close>\<close>

text \<open>
  The script splits every PDF of a directory into single-page files, counts the vector
  instructions and raster images of each page, saves the largest embedded image of the
  page and collects one report row per page. The PDF library (\<open>fitz\<close>), the imaging
  library (\<open>PIL\<close>) and the file system are outside the script: their answers are
  inputs of the model (the fields of \<open>page\<close> and \<open>env\<close>), their exceptions are values
  of type \<open>exn\<close>, the files written are a map from paths to contents, and the lines
  printed and the documents opened and closed are a list of events in program order.
  Three calls have no part in the model: \<open>os.makedirs\<close>, the check of the input
  directory in the main block, and \<open>pdf_document.xref_object\<close>, whose result the script
  never reads.
\<close>

subsection \<open>Values, exceptions and events\<close>

type_synonym bytes = "nat list"

datatype exn = IndexError | KeyError | OSError | LibraryError string

datatype msg =
    WarnExtractFailed exn
  | SavedImage string
  | WarnSaveFailed string exn
  | SavedTiffInstead string
  | ErrorNoFormat exn
  | NoPdfFound string
  | UsingFormat string
  | Processing string
  | ErrorProcessing string exn
  | StatsSaved string
  | ProcessedSummary nat nat
  | NoStats

datatype event = Opened string | Closed string | Printed msg

type_synonym files = "string \<rightharpoonup> bytes"

subsection \<open>Strings and paths of the standard library\<close>

text \<open>\<open>str.lower\<close> on ASCII text.\<close>

definition lower_char :: "char \<Rightarrow> char" where
  "lower_char c =
     (let n = (of_char c :: nat) in if 65 \<le> n \<and> n \<le> 90 then char_of (n + 32) else c)"

definition lower :: "string \<Rightarrow> string" where
  "lower s = map lower_char s"

text \<open>The decimal text of a non-negative integer, as an f-string prints it.\<close>

function str_nat :: "nat \<Rightarrow> string" where
  "str_nat n =
     (if n < 10 then [''0123456789'' ! n]
      else str_nat (n div 10) @ [''0123456789'' ! (n mod 10)])"
  by pat_completeness auto
termination
  by (relation "measure (\<lambda>n. n)") auto

declare str_nat.simps [simp del]

text \<open>\<open>str.rfind\<close> for one character: the last index, or \<open>-1\<close>.\<close>

fun rfind :: "char \<Rightarrow> string \<Rightarrow> int" where
  "rfind c [] = -1"
| "rfind c (x # xs) =
     (let r = rfind c xs in if 0 \<le> r then r + 1 else if x = c then 0 else -1)"

text \<open>\<open>posixpath.basename\<close> and \<open>posixpath.join\<close> (two arguments).\<close>

definition basename :: "string \<Rightarrow> string" where
  "basename p = drop (nat (rfind (CHR ''/'') p + 1)) p"

definition path_join :: "string \<Rightarrow> string \<Rightarrow> string" where
  "path_join a b =
     (if take 1 b = ''/'' then b
      else if a = [] \<or> (a \<noteq> [] \<and> last a = CHR ''/'') then a @ b
      else a @ ''/'' @ b)"

text \<open>
  \<open>genericpath._splitext\<close>: the while loop that skips the leading dots of the file
  name answers whether a character other than a dot stands before the last dot.
\<close>

function splitext_loop :: "string \<Rightarrow> nat \<Rightarrow> nat \<Rightarrow> bool" where
  "splitext_loop p filenameIndex dotIndex =
     (if filenameIndex < dotIndex then
        (if take 1 (drop filenameIndex p) \<noteq> ''.'' then True
         else splitext_loop p (filenameIndex + 1) dotIndex)
      else False)"
  by pat_completeness auto
termination
  by (relation "measure (\<lambda>(p, i, d). d - i)") auto

declare splitext_loop.simps [simp del]

definition splitext :: "string \<Rightarrow> string \<times> string" where
  "splitext p =
     (let sepIndex = rfind (CHR ''/'') p;
          dotIndex = rfind (CHR ''.'') p
      in if dotIndex > sepIndex \<and> splitext_loop p (nat (sepIndex + 1)) (nat dotIndex)
         then (take (nat dotIndex) p, drop (nat dotIndex) p)
         else (p, []))"

text \<open>\<open>", ".join(xs)\<close>.\<close>

fun join_comma :: "string list \<Rightarrow> string" where
  "join_comma [] = []"
| "join_comma [x] = x"
| "join_comma (x # y # ys) = x @ '', '' @ join_comma (y # ys)"

subsection \<open>Pages as the PDF library shows them\<close>

text \<open>
  An item of a drawing path is a tuple whose first component is the kind tag. The
  \<open>color\<close> entry of a path dictionary is missing, \<open>None\<close>, or a tuple of components.
\<close>

datatype item = Item (kind: string) (operands: "rat list")

datatype color = NoColorKey | PyNone | Tuple "rat list"

record drawing_path =
  d_items :: "item list option"
  d_color :: color

text \<open>
  \<open>images\<close> are the xrefs of \<open>page.get_images(full=True)\<close>; \<open>extract_image\<close> is
  \<open>page.parent.extract_image\<close>, which raises or returns a dictionary that has an
  \<open>"image"\<close> entry or not; \<open>page_pdf\<close> is what inserting the page into a new document
  and saving it gives: the bytes written, or the exception raised.
\<close>

record page =
  drawings :: "drawing_path list"
  images :: "nat list"
  extract_image :: "nat \<Rightarrow> exn + bytes option"
  page_pdf :: "exn + bytes"

subsection \<open>Page statistics (\<open>get_page_statistics\<close>)\<close>

record counters =
  points :: nat
  lines :: nat
  polygons :: nat
  colors :: "string list"

definition count_item :: "item \<Rightarrow> counters \<Rightarrow> counters" where
  "count_item it st =
     (if kind it = ''l'' then st\<lparr>lines := lines st + 1\<rparr>
      else if kind it = ''re'' then st\<lparr>polygons := polygons st + 1\<rparr>
      else if kind it = ''c'' \<or> kind it = ''v'' \<or> kind it = ''y''
        then st\<lparr>polygons := polygons st + 1\<rparr>
      else if kind it = ''m'' then st\<lparr>points := points st + 1\<rparr>
      else st)"

fun items_loop :: "item list \<Rightarrow> counters \<Rightarrow> counters" where
  "items_loop [] st = st"
| "items_loop (it # its) st = items_loop its (count_item it st)"

text \<open>\<open>"color" in path and path["color"]\<close>: the entry is there and is not falsy.\<close>

fun color_value :: "color \<Rightarrow> rat list option" where
  "color_value NoColorKey = None"
| "color_value PyNone = None"
| "color_value (Tuple []) = None"
| "color_value (Tuple (x # xs)) = Some (x # xs)"

definition add_color :: "(rat list \<Rightarrow> string) \<Rightarrow> drawing_path \<Rightarrow> counters \<Rightarrow> counters" where
  "add_color py_str path st =
     (case color_value (d_color path) of
        None \<Rightarrow> st
      | Some c \<Rightarrow>
          (let color_str = py_str c
           in if color_str \<notin> set (colors st) then st\<lparr>colors := colors st @ [color_str]\<rparr>
              else st))"

definition path_step :: "(rat list \<Rightarrow> string) \<Rightarrow> drawing_path \<Rightarrow> counters \<Rightarrow> counters" where
  "path_step py_str path st =
     add_color py_str path
       (case d_items path of None \<Rightarrow> st | Some its \<Rightarrow> items_loop its st)"

fun paths_loop :: "(rat list \<Rightarrow> string) \<Rightarrow> drawing_path list \<Rightarrow> counters \<Rightarrow> counters" where
  "paths_loop py_str [] st = st"
| "paths_loop py_str (path # paths) st = paths_loop py_str paths (path_step py_str path st)"

definition init_counters :: counters where
  "init_counters = \<lparr>points = 0, lines = 0, polygons = 0, colors = []\<rparr>"

record stats =
  point_count :: nat
  line_count :: nat
  polygon_count :: nat
  raster_count :: nat
  vector_colors :: string

definition get_page_statistics :: "(rat list \<Rightarrow> string) \<Rightarrow> page \<Rightarrow> stats" where
  "get_page_statistics py_str pg =
     (let st = paths_loop py_str (drawings pg) init_counters
      in \<lparr>point_count = points st, line_count = lines st, polygon_count = polygons st,
          raster_count = length (images pg),
          vector_colors = (if colors st \<noteq> [] then join_comma (colors st) else ''None'')\<rparr>)"

subsection \<open>Images as the imaging library shows them\<close>

text \<open>
  A decoded image has a mode, a size and one band of samples (0 to 255) for each
  channel of its mode: \<open>split\<close> returns the bands as a tuple, so an \<open>RGBA\<close> image gives
  four and an \<open>LA\<close> image two. Indexing a tuple out of range raises \<open>IndexError\<close>.
\<close>

record image =
  im_mode :: string
  im_size :: "nat \<times> nat"
  im_bands :: "nat list list"

datatype save_opts = JPEG nat | PNG | TIFF string

definition tuple_index :: "'a list \<Rightarrow> nat \<Rightarrow> exn + 'a" where
  "tuple_index xs i = (if i < length xs then Inr (xs ! i) else Inl IndexError)"

definition split :: "image \<Rightarrow> nat list list" where
  "split img = im_bands img"

definition Image_new_RGB :: "nat \<times> nat \<Rightarrow> nat \<Rightarrow> image" where
  "Image_new_RGB sz v =
     \<lparr>im_mode = ''RGB'', im_size = sz, im_bands = replicate 3 (replicate (fst sz * snd sz) v)\<rparr>"

text \<open>
  \<open>Image.paste\<close> onto an \<open>RGB\<close> image. The library keeps an \<open>LA\<close> image as the samples
  (L, L, L, A) and an \<open>RGBA\<close> image as (R, G, B, A), and blends each of the first three
  with the destination under the mask: the mask value 0 keeps the destination, 255
  takes the source.
\<close>

definition blend8 :: "nat \<Rightarrow> nat \<Rightarrow> nat \<Rightarrow> nat" where
  "blend8 m in1 in2 =
     (let tmp = in1 * (255 - m) + in2 * m + 128 in (tmp div 256 + tmp) div 256)"

definition storage_bands :: "image \<Rightarrow> nat list list" where
  "storage_bands img =
     (if im_mode img = ''LA'' then
        (case im_bands img of [l, a] \<Rightarrow> [l, l, l, a] | bs \<Rightarrow> bs)
      else im_bands img)"

definition paste :: "image \<Rightarrow> image \<Rightarrow> nat list option \<Rightarrow> image" where
  "paste dst src mask_band =
     (case mask_band of
        None \<Rightarrow> dst\<lparr>im_bands := take 3 (storage_bands src)\<rparr>
      | Some ms \<Rightarrow>
          dst\<lparr>im_bands :=
            map (\<lambda>(outb, inb). map (\<lambda>((ov, iv), m). blend8 m ov iv) (zip (zip outb inb) ms))
              (zip (im_bands dst) (storage_bands src))\<rparr>)"

text \<open>
  What the script does not compute itself: opening a PDF, decoding bytes
  (\<open>Image.open\<close>; it decodes lazily, so an error of the decoder counts as raised here),
  \<open>Image.convert\<close>, \<open>Image.save\<close>, \<open>str\<close> of a colour tuple, and the text of the
  report written by \<open>DataFrame.to_csv\<close>.

  \<open>Image.save\<close> to a path has three outcomes. It writes the encoded bytes. It raises
  before it opens the target (the image cannot be loaded, the target cannot be opened):
  the files stay as they were. Or it raises after it has opened the target for writing,
  which truncates a file that was there: the library then removes the target if the
  call created it, and leaves a file that was there before with the bytes written so
  far.
\<close>

datatype save_result = Saved bytes | RaisedBeforeOpen exn | RaisedAfterOpen exn bytes

record row = stats +
  original_file :: string
  output_file :: string
  page_number :: nat
  total_pages :: nat
  file_size_kb :: rat
  largest_image_file :: string

record env =
  fitz_open :: "string \<Rightarrow> exn + page list"
  image_open :: "bytes \<Rightarrow> exn + image"
  image_convert :: "image \<Rightarrow> string \<Rightarrow> exn + image"
  image_save :: "image \<Rightarrow> string \<Rightarrow> save_opts \<Rightarrow> save_result"
  py_str :: "rat list \<Rightarrow> string"
  to_csv :: "unit row_scheme list \<Rightarrow> bytes"

subsection \<open>The largest image of a page (\<open>extract_largest_image\<close>)\<close>

text \<open>The loop over the image directory: the state is \<open>(largest_img, max_size)\<close>.\<close>

definition select_step ::
  "page \<Rightarrow> nat \<Rightarrow> (bytes option \<times> nat) \<times> event list \<Rightarrow> (bytes option \<times> nat) \<times> event list" where
  "select_step pg xref acc =
     (case acc of ((largest_img, max_size), evs) \<Rightarrow>
        (case extract_image pg xref of
           Inl e \<Rightarrow> ((largest_img, max_size), evs @ [Printed (WarnExtractFailed e)])
         | Inr None \<Rightarrow> ((largest_img, max_size), evs @ [Printed (WarnExtractFailed KeyError)])
         | Inr (Some image_bytes) \<Rightarrow>
             (let img_size = length image_bytes
              in if img_size > max_size then ((Some image_bytes, img_size), evs)
                 else ((largest_img, max_size), evs))))"

fun select_loop ::
  "page \<Rightarrow> nat list \<Rightarrow> (bytes option \<times> nat) \<times> event list \<Rightarrow> (bytes option \<times> nat) \<times> event list" where
  "select_loop pg [] acc = acc"
| "select_loop pg (xref # xrefs) acc = select_loop pg xrefs (select_step pg xref acc)"

definition select_largest :: "page \<Rightarrow> bytes option \<times> event list" where
  "select_largest pg =
     (case select_loop pg (images pg) ((None, 0), []) of
        ((largest_img, max_size), evs) \<Rightarrow> (largest_img, evs))"

text \<open>The conversion of the image mode for JPEG (lines 133 to 143).\<close>

definition jpeg_prepare :: "env \<Rightarrow> image \<Rightarrow> exn + image" where
  "jpeg_prepare env img =
     (if im_mode img = ''RGBA'' \<or> im_mode img = ''LA'' then
        (let background = Image_new_RGB (im_size img) 255
         in if CHR ''A'' \<in> set (im_mode img) then
              (case tuple_index (split img) 3 of
                 Inl e \<Rightarrow> Inl e
               | Inr alpha \<Rightarrow> Inr (paste background img (Some alpha)))
            else Inr (paste background img None))
      else if im_mode img \<noteq> ''RGB'' then image_convert env img ''RGB''
      else Inr img)"

text \<open>
  \<open>img.save(path, ...)\<close>: the files after the call, with the exception when it raises.
\<close>

definition save_to ::
  "env \<Rightarrow> image \<Rightarrow> string \<Rightarrow> save_opts \<Rightarrow> files \<Rightarrow> exn \<times> files + files" where
  "save_to env img path opts fs =
     (case image_save env img path opts of
        Saved bs \<Rightarrow> Inr (fs(path \<mapsto> bs))
      | RaisedBeforeOpen e \<Rightarrow> Inl (e, fs)
      | RaisedAfterOpen e written \<Rightarrow>
          Inl (e, if fs path = None then fs else fs(path \<mapsto> written)))"

text \<open>
  The body of the outer \<open>try\<close> (lines 128 to 155). When it raises, the result holds
  the exception and the files as the failed attempt left them.
\<close>

definition try_save ::
  "env \<Rightarrow> bytes \<Rightarrow> string \<Rightarrow> string \<Rightarrow> files \<Rightarrow> exn \<times> files + files \<times> event list" where
  "try_save env largest_img output_path image_format fs =
     (case image_open env largest_img of
        Inl e \<Rightarrow> Inl (e, fs)
      | Inr img \<Rightarrow>
          (case
             (if lower image_format = ''jpeg'' then
                (case jpeg_prepare env img of
                   Inl e \<Rightarrow> Inl (e, fs)
                 | Inr img' \<Rightarrow> save_to env img' output_path (JPEG 90) fs)
              else if lower image_format = ''png'' then save_to env img output_path PNG fs
              else save_to env img output_path (TIFF ''tiff_lzw'') fs)
           of
             Inl (e, fs') \<Rightarrow> Inl (e, fs')
           | Inr fs' \<Rightarrow> Inr (fs', [Printed (SavedImage output_path)])))"

text \<open>The handler of the outer \<open>try\<close> (lines 158 to 166): one attempt as TIFF.\<close>

definition tiff_fallback ::
  "env \<Rightarrow> bytes \<Rightarrow> string \<Rightarrow> files \<Rightarrow> files \<times> event list" where
  "tiff_fallback env largest_img output_path fs =
     (let tiff_path = fst (splitext output_path) @ ''.tiff''
      in case image_open env largest_img of
           Inl e2 \<Rightarrow> (fs, [Printed (ErrorNoFormat e2)])
         | Inr img \<Rightarrow>
             (case save_to env img tiff_path (TIFF ''tiff_lzw'') fs of
                Inl (e2, fs') \<Rightarrow> (fs', [Printed (ErrorNoFormat e2)])
              | Inr fs' \<Rightarrow> (fs', [Printed (SavedTiffInstead tiff_path)])))"

definition extract_largest_image ::
  "env \<Rightarrow> page \<Rightarrow> string \<Rightarrow> string \<Rightarrow> files \<Rightarrow> files \<times> event list" where
  "extract_largest_image env pg output_path image_format fs =
     (case select_largest pg of (largest_img, evs) \<Rightarrow>
        (case largest_img of
           None \<Rightarrow> (fs, evs)
         | Some bs \<Rightarrow>
             if bs = [] then (fs, evs)
             else
               (case try_save env bs output_path image_format fs of
                  Inr (fs', evs') \<Rightarrow> (fs', evs @ evs')
                | Inl (e, fs1) \<Rightarrow>
                    (case tiff_fallback env bs output_path fs1 of
                       (fs', evs') \<Rightarrow>
                         (fs', evs @ [Printed (WarnSaveFailed image_format e)] @ evs')))))"

subsection \<open>One document (\<open>extract_pdf_statistics\<close>)\<close>

definition format_ext :: "string \<Rightarrow> string" where
  "format_ext image_format =
     (let f = lower image_format
      in if f = ''tiff'' then ''.tiff''
         else if f = ''png'' then ''.png''
         else if f = ''jpeg'' then ''.jpg''
         else ''.tiff'')"

definition page_stem :: "string \<Rightarrow> nat \<Rightarrow> nat \<Rightarrow> string" where
  "page_stem base_filename page_num n_pages = 
     base_filename @ ''_'' @ str_nat page_num @ ''_of_'' @ str_nat n_pages"

definition getsize :: "files \<Rightarrow> string \<Rightarrow> exn + nat" where
  "getsize fs path = (case fs path of None \<Rightarrow> Inl OSError | Some bs \<Rightarrow> Inr (length bs))"

text \<open>The body of the loop over the pages (lines 32 to 59), for page \<open>page_num\<close>.\<close>

definition page_step ::
  "env \<Rightarrow> string \<Rightarrow> string \<Rightarrow> string \<Rightarrow> nat \<Rightarrow> nat \<Rightarrow> page \<Rightarrow> files
     \<Rightarrow> files \<times> event list \<times> (exn + unit row_scheme)" where
  "page_step env pdf_path output_dir image_format n_pages page_num pg fs =
     (let base_filename = fst (splitext (basename pdf_path));
          ext = format_ext image_format;
          output_filename = page_stem base_filename page_num n_pages @ ''.pdf'';
          output_path = path_join output_dir output_filename
      in case page_pdf pg of
           Inl e \<Rightarrow> (fs, [], Inl e)
         | Inr pdf_bytes \<Rightarrow>
             (let fs1 = fs(output_path \<mapsto> pdf_bytes);
                  page_stats = get_page_statistics (py_str env) pg
              in case getsize fs1 output_path of
                   Inl e \<Rightarrow> (fs1, [], Inl e)
                 | Inr sz \<Rightarrow>
                     (let part = \<lparr>point_count = point_count page_stats,
                                  line_count = line_count page_stats,
                                  polygon_count = polygon_count page_stats,
                                  raster_count = raster_count page_stats,
                                  vector_colors = vector_colors page_stats,
                                  original_file = basename pdf_path,
                                  output_file = output_filename,
                                  page_number = page_num,
                                  total_pages = n_pages,
                                  file_size_kb = of_nat sz / 1024,
                                  largest_image_file = []\<rparr>
                      in if raster_count page_stats > 0 then
                           (let img_filename =
                                  page_stem base_filename page_num n_pages @ ''_largest_image'' @ ext;
                                img_path = path_join output_dir img_filename
                            in case extract_largest_image env pg img_path image_format fs1 of
                                 (fs2, evs) \<Rightarrow>
                                   (fs2, evs, Inr (part\<lparr>largest_image_file := img_filename\<rparr>)))
                         else (fs1, [], Inr (part\<lparr>largest_image_file := ''N/A''\<rparr>)))))"

fun pages_loop ::
  "env \<Rightarrow> string \<Rightarrow> string \<Rightarrow> string \<Rightarrow> nat \<Rightarrow> nat \<Rightarrow> page list \<Rightarrow> files
     \<Rightarrow> files \<times> event list \<times> (exn + unit row_scheme list)" where
  "pages_loop env pdf_path output_dir image_format n_pages page_num [] fs = (fs, [], Inr [])"
| "pages_loop env pdf_path output_dir image_format n_pages page_num (pg # pgs) fs =
     (case page_step env pdf_path output_dir image_format n_pages page_num pg fs of
        (fs1, evs1, Inl e) \<Rightarrow> (fs1, evs1, Inl e)
      | (fs1, evs1, Inr r) \<Rightarrow>
          (case pages_loop env pdf_path output_dir image_format n_pages (page_num + 1) pgs fs1 of
             (fs2, evs2, Inl e) \<Rightarrow> (fs2, evs1 @ evs2, Inl e)
           | (fs2, evs2, Inr rs) \<Rightarrow> (fs2, evs1 @ evs2, Inr (r # rs))))"

definition extract_pdf_statistics ::
  "env \<Rightarrow> string \<Rightarrow> string \<Rightarrow> string \<Rightarrow> files
     \<Rightarrow> files \<times> event list \<times> (exn + unit row_scheme list)" where
  "extract_pdf_statistics env pdf_path output_dir image_format fs =
     (case fitz_open env pdf_path of
        Inl e \<Rightarrow> (fs, [], Inl e)
      | Inr pdf_document \<Rightarrow>
          (case pages_loop env pdf_path output_dir image_format (length pdf_document) 1
                  pdf_document fs of
             (fs1, evs, Inl e) \<Rightarrow> (fs1, Opened pdf_path # evs, Inl e)
           | (fs1, evs, Inr stats_data) \<Rightarrow>
               (fs1, Opened pdf_path # evs @ [Closed pdf_path], Inr stats_data)))"

subsection \<open>The batch (\<open>process_all_pdfs\<close>)\<close>

text \<open>The loop over the files found (lines 182 to 188); \<open>all_stats\<close> is its result.\<close>

fun files_loop ::
  "env \<Rightarrow> string \<Rightarrow> string \<Rightarrow> string list \<Rightarrow> files
     \<Rightarrow> files \<times> event list \<times> unit row_scheme list" where
  "files_loop env output_dir image_format [] fs = (fs, [], [])"
| "files_loop env output_dir image_format (pdf_file # rest) fs =
     (case extract_pdf_statistics env pdf_file output_dir image_format fs of
        (fs1, evs1, Inl e) \<Rightarrow>
          (case files_loop env output_dir image_format rest fs1 of
             (fs2, evs2, all_stats) \<Rightarrow>
               (fs2,
                Printed (Processing pdf_file) # evs1 @ [Printed (ErrorProcessing pdf_file e)] @ evs2,
                all_stats))
      | (fs1, evs1, Inr stats) \<Rightarrow>
          (case files_loop env output_dir image_format rest fs1 of
             (fs2, evs2, all_stats) \<Rightarrow>
               (fs2, Printed (Processing pdf_file) # evs1 @ evs2, stats @ all_stats)))"

text \<open>
  \<open>pdf_files\<close> is what \<open>glob\<close> found in the input directory, in its order. The result
  is the files, the events and the rows of the report.
\<close>

definition process_all_pdfs ::
  "env \<Rightarrow> string \<Rightarrow> string list \<Rightarrow> string \<Rightarrow> string \<Rightarrow> files
     \<Rightarrow> files \<times> event list \<times> unit row_scheme list" where
  "process_all_pdfs env input_dir pdf_files output_dir image_format fs =
     (if pdf_files = [] then (fs, [Printed (NoPdfFound input_dir)], [])
      else
        (case files_loop env output_dir image_format pdf_files fs of
           (fs1, evs, all_stats) \<Rightarrow>
             if all_stats \<noteq> [] then
               (let csv_path = path_join output_dir ''pdf_statistics.csv''
                in (fs1(csv_path \<mapsto> to_csv env all_stats),
                    Printed (UsingFormat image_format) # evs @
                      [Printed (StatsSaved csv_path),
                       Printed (ProcessedSummary (length pdf_files) (length all_stats))],
                    all_stats))
             else (fs1, Printed (UsingFormat image_format) # evs @ [Printed NoStats], [])))"

subsection \<open>Notions used to state the properties\<close>

text \<open>The items of all paths of a page, in drawing order.\<close>

definition all_items :: "drawing_path list \<Rightarrow> item list" where
  "all_items paths =
     concat (map (\<lambda>p. case d_items p of None \<Rightarrow> [] | Some its \<Rightarrow> its) paths)"

definition is_polygon_kind :: "string \<Rightarrow> bool" where
  "is_polygon_kind k = (k = ''re'' \<or> k = ''c'' \<or> k = ''v'' \<or> k = ''y'')"

text \<open>The colour strings of the paths that carry a colour, in the order met.\<close>

definition seen_colors :: "(rat list \<Rightarrow> string) \<Rightarrow> drawing_path list \<Rightarrow> string list" where
  "seen_colors str paths = map str (List.map_filter (\<lambda>p. color_value (d_color p)) paths)"

text \<open>Every element once, at the place of its first occurrence.\<close>

definition first_seen :: "'a list \<Rightarrow> 'a list" where
  "first_seen xs = rev (remdups (rev xs))"

text \<open>
  The payloads of the image references that resolve, and the warnings of those that do
  not, both in directory order; the first payload of greatest length.
\<close>

definition resolved_of :: "page \<Rightarrow> nat list \<Rightarrow> bytes list" where
  "resolved_of pg xrefs =
     List.map_filter
       (\<lambda>x. case extract_image pg x of Inr (Some b) \<Rightarrow> Some b | _ \<Rightarrow> None) xrefs"

definition warnings_of :: "page \<Rightarrow> nat list \<Rightarrow> event list" where
  "warnings_of pg xrefs =
     List.map_filter
       (\<lambda>x. case extract_image pg x of
               Inl e \<Rightarrow> Some (Printed (WarnExtractFailed e))
             | Inr None \<Rightarrow> Some (Printed (WarnExtractFailed KeyError))
             | Inr (Some b) \<Rightarrow> None) xrefs"

definition longest_first :: "bytes list \<Rightarrow> bytes option" where
  "longest_first rs = find (\<lambda>b. length b = Max (set (map length rs))) rs"

text \<open>
  What a selection hands on: line 125 tests \<open>if largest_img:\<close>, so \<open>None\<close> and the
  empty payload are the same "nothing".
\<close>

definition payload_of :: "bytes option \<Rightarrow> bytes" where
  "payload_of sel = (case sel of None \<Rightarrow> [] | Some b \<Rightarrow> b)"

definition top_size :: "bytes list \<Rightarrow> nat" where
  "top_size rs = Max (insert 0 (set (map length rs)))"

text \<open>The names of the artifacts of page \<open>page_num\<close> of \<open>n_pages\<close> of a PDF.\<close>

definition split_name :: "string \<Rightarrow> nat \<Rightarrow> nat \<Rightarrow> string" where
  "split_name pdf_path page_num n_pages =
     page_stem (fst (splitext (basename pdf_path))) page_num n_pages @ ''.pdf''"

definition image_name :: "string \<Rightarrow> string \<Rightarrow> nat \<Rightarrow> nat \<Rightarrow> string" where
  "image_name pdf_path image_format page_num n_pages =
     page_stem (fst (splitext (basename pdf_path))) page_num n_pages
       @ ''_largest_image'' @ format_ext image_format"

definition tiff_name :: "string \<Rightarrow> nat \<Rightarrow> nat \<Rightarrow> string" where
  "tiff_name pdf_path page_num n_pages =
     page_stem (fst (splitext (basename pdf_path))) page_num n_pages
       @ ''_largest_image'' @ ''.tiff''"

fun is_print :: "event \<Rightarrow> bool" where
  "is_print (Printed m) = True"
| "is_print (Opened p) = False"
| "is_print (Closed p) = False"

text \<open>The rows a document gives to the report: none when its processing raises.\<close>

definition rows_of ::
  "env \<Rightarrow> string \<Rightarrow> string \<Rightarrow> string \<Rightarrow> unit row_scheme list" where
  "rows_of env output_dir image_format pdf_file =
     (case snd (snd (extract_pdf_statistics env pdf_file output_dir image_format Map.empty)) of
        Inl e \<Rightarrow> []
      | Inr stats \<Rightarrow> stats)"

definition failure_of :: "env \<Rightarrow> string \<Rightarrow> string \<Rightarrow> string \<Rightarrow> exn option" where
  "failure_of env output_dir image_format pdf_file =
     (case snd (snd (extract_pdf_statistics env pdf_file output_dir image_format Map.empty)) of
        Inl e \<Rightarrow> Some e
      | Inr stats \<Rightarrow> None)"

subsection \<open>Sample inputs\<close>

definition sample_str :: "rat list \<Rightarrow> string" where
  "sample_str c =
     (if c = [1, 0, 0] then ''(1.0, 0.0, 0.0)''
      else if c = [0, 1, 0] then ''(0.0, 1.0, 0.0)''
      else if c = [0, 0, 1] then ''(0.0, 0.0, 1.0)''
      else ''(0.0, 0.0, 0.0)'')"

definition sample_drawings :: "drawing_path list" where
  "sample_drawings =
     [\<lparr>d_items = Some [Item ''m'' [], Item ''l'' [], Item ''l'' [], Item ''qu'' []],
       d_color = Tuple [1, 0, 0]\<rparr>,
      \<lparr>d_items = Some [Item ''re'' [], Item ''c'' []], d_color = Tuple [0, 1, 0]\<rparr>,
      \<lparr>d_items = None, d_color = Tuple [1, 0, 0]\<rparr>,
      \<lparr>d_items = Some [Item ''v'' [], Item ''y'' []], d_color = PyNone\<rparr>,
      \<lparr>d_items = Some [], d_color = Tuple [0, 0, 1]\<rparr>]"

definition vector_page :: page where
  "vector_page =
     \<lparr>drawings = sample_drawings, images = [],
      extract_image = (\<lambda>xref. Inl (LibraryError ''bad xref'')),
      page_pdf = Inr (replicate 2048 0)\<rparr>"

definition rgba_img :: image where
  "rgba_img =
     \<lparr>im_mode = ''RGBA'', im_size = (2, 1),
      im_bands = [[10, 200], [20, 210], [30, 220], [0, 255]]\<rparr>"

definition la_img :: image where
  "la_img = \<lparr>im_mode = ''LA'', im_size = (2, 1), im_bands = [[10, 200], [0, 255]]\<rparr>"

text \<open>
  A page with three image references: the first and the third resolve to payloads of
  the same length, the second does not resolve.
\<close>

definition raster_page :: page where
  "raster_page =
     \<lparr>drawings = [], images = [1, 2, 3],
      extract_image =
        (\<lambda>xref. if xref = 1 then Inr (Some [11, 12, 13])
                 else if xref = 3 then Inr (Some [6, 6, 6])
                 else Inl (LibraryError ''bad xref'')),
      page_pdf = Inr [37, 80, 68, 70]\<rparr>"

definition la_page :: page where
  "la_page =
     \<lparr>drawings = [], images = [7],
      extract_image = (\<lambda>xref. Inr (Some [4, 5])),
      page_pdf = Inr [37, 80, 68, 70]\<rparr>"

definition junk_page :: page where
  "junk_page =
     \<lparr>drawings = [], images = [8],
      extract_image = (\<lambda>xref. Inr (Some [9, 9, 9, 9])),
      page_pdf = Inr [37, 80, 68, 70]\<rparr>"

definition empty_payload_page :: page where
  "empty_payload_page =
     \<lparr>drawings = [], images = [5],
      extract_image = (\<lambda>xref. Inr (Some [])),
      page_pdf = Inr [37, 80, 68, 70]\<rparr>"

definition broken_page :: page where
  "broken_page =
     \<lparr>drawings = [], images = [],
      extract_image = (\<lambda>xref. Inl (LibraryError ''bad xref'')),
      page_pdf = Inl OSError\<rparr>"

text \<open>
  A library that opens three documents, decodes two payloads, raises in the PNG encoder
  with the target open and nothing written, and encodes JPEG and TIFF.
\<close>

definition sample_env :: env where
  "sample_env =
     \<lparr>fitz_open =
        (\<lambda>p. if p = ''in/good.pdf'' then Inr [vector_page, raster_page]
              else if p = ''in/leaky.pdf'' then Inr [vector_page, broken_page]
              else if p = ''in/d.pdf'' then Inr [junk_page]
              else Inl (LibraryError ''cannot open'')),
      image_open =
        (\<lambda>b. if b = [11, 12, 13] then Inr rgba_img
              else if b = [4, 5] then Inr la_img
              else Inl (LibraryError ''cannot identify image file'')),
      image_convert = (\<lambda>img m. Inr (img\<lparr>im_mode := m\<rparr>)),
      image_save =
        (\<lambda>img path opts.
           case opts of
             PNG \<Rightarrow> RaisedAfterOpen (LibraryError ''encoder error'') []
           | JPEG q \<Rightarrow> Saved (q # concat (im_bands img))
           | TIFF c \<Rightarrow> Saved (concat (im_bands img))),
      py_str = sample_str,
      to_csv = (\<lambda>rows. [length rows])\<rparr>"

text \<open>An output directory that already holds an image file of an earlier run.\<close>

definition stale_files :: files where
  "stale_files = [''out/good_2_of_2_largest_image.png'' \<mapsto> [7, 7, 7]]"

section \<open>Properties\<close>

subsection \<open>Paths\<close>

lemma rfind_ge: "- 1 \<le> rfind c s"
  by (induction s) (auto simp: Let_def)

lemma rfind_notin: "c \<notin> set s \<Longrightarrow> rfind c s = - 1"
  by (induction s) (auto simp: Let_def)

lemma rfind_in: "c \<in> set s \<Longrightarrow> 0 \<le> rfind c s"
  by (induction s) (auto simp: Let_def)

lemma rfind_lt: "rfind c s < int (length s)"
  by (induction s) (auto simp: Let_def)

lemma rfind_append_notin: "c \<notin> set t \<Longrightarrow> rfind c (s @ t) = rfind c s"
  by (induction s) (auto simp: Let_def rfind_notin)

lemma rfind_append_in: "c \<in> set t \<Longrightarrow> rfind c (s @ t) = int (length s) + rfind c t"
  by (induction s) (auto simp: Let_def dest: rfind_in)

lemma rfind_last_dot:
  "c \<notin> set e \<Longrightarrow> rfind c (s @ c # e) = int (length s)"
  by (simp add: rfind_append_in rfind_notin Let_def)

lemma splitext_loop_found:
  "i \<le> j \<Longrightarrow> j < d \<Longrightarrow> j < length p \<Longrightarrow> p ! j \<noteq> CHR ''.'' \<Longrightarrow> splitext_loop p i d"
proof (induction p i d rule: splitext_loop.induct)
  case (1 p i d)
  show ?case
  proof (cases "take 1 (drop i p) \<noteq> ''.''")
    case True
    with 1(2,3) show ?thesis by (subst splitext_loop.simps) simp
  next
    case False
    have "i < length p" using 1(2,4) by simp
    then have "take 1 (drop i p) = [p ! i]"
      by (simp add: Cons_nth_drop_Suc[symmetric])
    with False have "p ! i = CHR ''.''" by simp
    with 1(5) have "i \<noteq> j" by auto
    with 1(2) have "i + 1 \<le> j" by simp
    with 1 False show ?thesis by (subst splitext_loop.simps) simp
  qed
qed

lemma splitext_suffix:
  assumes e: "CHR ''.'' \<notin> set e" "CHR ''/'' \<notin> set e"
    and s: "CHR ''/'' \<notin> set s" "s \<noteq> []" "last s \<noteq> CHR ''.''"
  shows "splitext (q @ s @ CHR ''.'' # e) = (q @ s, CHR ''.'' # e)"
proof -
  let ?p = "q @ s @ CHR ''.'' # e"
  have dot: "rfind (CHR ''.'') ?p = int (length q + length s)"
    using rfind_last_dot[OF e(1), of "q @ s"] by simp
  have "CHR ''/'' \<notin> set (s @ CHR ''.'' # e)" using e s by simp
  then have sep: "rfind (CHR ''/'') ?p = rfind (CHR ''/'') q"
    by (rule rfind_append_notin)
  have seplt: "rfind (CHR ''/'') q < int (length q)" by (rule rfind_lt)
  have sepge: "- 1 \<le> rfind (CHR ''/'') q" by (rule rfind_ge)
  let ?j = "length q + length s - 1"
  have jlt: "?j < length (q @ s)" using s(2) by (cases s) auto
  have "?p ! ?j = ((q @ s) @ CHR ''.'' # e) ! ?j" by simp
  also have "\<dots> = (q @ s) ! ?j" using jlt by (simp only: nth_append if_True)
  also have "\<dots> = last (q @ s)" using s(2) by (simp add: last_conv_nth)
  finally have j: "?p ! ?j = last s" using s(2) by simp
  have "splitext_loop ?p (nat (rfind (CHR ''/'') q + 1)) (length q + length s)"
  proof (rule splitext_loop_found[where j = ?j])
    show "nat (rfind (CHR ''/'') q + 1) \<le> ?j" using seplt sepge s(2)
      by (cases s) auto
    show "?j < length q + length s" using s(2) by (cases s) auto
    show "?j < length ?p" by simp
    show "?p ! ?j \<noteq> CHR ''.''" using j s(3) by simp
  qed
  then show ?thesis
    using seplt by (simp add: splitext_def Let_def dot sep nat_int_add del: rfind.simps)
qed

subsection \<open>Counting the drawing instructions\<close>

lemma items_loop_points:
  "points (items_loop its st) = points st + length (filter (\<lambda>it. kind it = ''m'') its)"
  by (induction its arbitrary: st) (auto simp: count_item_def)

lemma items_loop_lines:
  "lines (items_loop its st) = lines st + length (filter (\<lambda>it. kind it = ''l'') its)"
  by (induction its arbitrary: st) (auto simp: count_item_def)

lemma items_loop_polygons:
  "polygons (items_loop its st) =
     polygons st + length (filter (\<lambda>it. is_polygon_kind (kind it)) its)"
  by (induction its arbitrary: st) (auto simp: count_item_def is_polygon_kind_def)

lemma items_loop_colors: "colors (items_loop its st) = colors st"
  by (induction its arbitrary: st) (auto simp: count_item_def)

lemma add_color_counts:
  "points (add_color str p st) = points st"
  "lines (add_color str p st) = lines st"
  "polygons (add_color str p st) = polygons st"
  by (auto simp: add_color_def Let_def split: option.splits)

lemma paths_loop_points:
  "points (paths_loop str paths st) =
     points st + length (filter (\<lambda>it. kind it = ''m'') (all_items paths))"
  by (induction paths arbitrary: st)
     (auto simp: all_items_def path_step_def add_color_counts items_loop_points
           split: option.splits)

lemma paths_loop_lines:
  "lines (paths_loop str paths st) =
     lines st + length (filter (\<lambda>it. kind it = ''l'') (all_items paths))"
  by (induction paths arbitrary: st)
     (auto simp: all_items_def path_step_def add_color_counts items_loop_lines
           split: option.splits)

lemma paths_loop_polygons:
  "polygons (paths_loop str paths st) =
     polygons st + length (filter (\<lambda>it. is_polygon_kind (kind it)) (all_items paths))"
  by (induction paths arbitrary: st)
     (auto simp: all_items_def path_step_def add_color_counts items_loop_polygons
           split: option.splits)

text \<open>
  C5. The point count of a page is the number of its \<open>"m"\<close> items, the line count the
  number of its \<open>"l"\<close> items and the polygon count the number of its \<open>"re"\<close>, \<open>"c"\<close>,
  \<open>"v"\<close> and \<open>"y"\<close> items, over all paths that have items; an item of any other kind
  leaves every counter as it was and raises nothing.
\<close>

theorem analyzer_counts_by_kind:
  "point_count (get_page_statistics str pg) =
     length (filter (\<lambda>it. kind it = ''m'') (all_items (drawings pg)))
   \<and> line_count (get_page_statistics str pg) =
     length (filter (\<lambda>it. kind it = ''l'') (all_items (drawings pg)))
   \<and> polygon_count (get_page_statistics str pg) =
     length (filter (\<lambda>it. kind it = ''re'' \<or> kind it = ''c'' \<or> kind it = ''v'' \<or> kind it = ''y'')
       (all_items (drawings pg)))
   \<and> count_item (Item ''m'' ops) st = st\<lparr>points := points st + 1\<rparr>
   \<and> count_item (Item ''l'' ops) st = st\<lparr>lines := lines st + 1\<rparr>
   \<and> (is_polygon_kind k \<longrightarrow> count_item (Item k ops) st = st\<lparr>polygons := polygons st + 1\<rparr>)
   \<and> (k \<noteq> ''m'' \<and> k \<noteq> ''l'' \<and> \<not> is_polygon_kind k \<longrightarrow> count_item (Item k ops) st = st)"
proof -
  have "polygon_count (get_page_statistics str pg) =
     length (filter (\<lambda>it. is_polygon_kind (kind it)) (all_items (drawings pg)))"
    by (simp add: get_page_statistics_def Let_def paths_loop_polygons init_counters_def)
  moreover have "point_count (get_page_statistics str pg) =
     length (filter (\<lambda>it. kind it = ''m'') (all_items (drawings pg)))"
    by (simp add: get_page_statistics_def Let_def paths_loop_points init_counters_def)
  moreover have "line_count (get_page_statistics str pg) =
     length (filter (\<lambda>it. kind it = ''l'') (all_items (drawings pg)))"
    by (simp add: get_page_statistics_def Let_def paths_loop_lines init_counters_def)
  moreover have "count_item (Item ''m'' ops) st = st\<lparr>points := points st + 1\<rparr>"
    by (simp add: count_item_def)
  moreover have "count_item (Item ''l'' ops) st = st\<lparr>lines := lines st + 1\<rparr>"
    by (simp add: count_item_def)
  moreover have "is_polygon_kind k \<longrightarrow>
      count_item (Item k ops) st = st\<lparr>polygons := polygons st + 1\<rparr>"
    by (auto simp: count_item_def is_polygon_kind_def)
  moreover have "k \<noteq> ''m'' \<and> k \<noteq> ''l'' \<and> \<not> is_polygon_kind k \<longrightarrow>
      count_item (Item k ops) st = st"
    by (auto simp: count_item_def is_polygon_kind_def)
  ultimately show ?thesis
    by (simp add: is_polygon_kind_def)
qed

theorem analyzer_counts_by_kind_witness:
  "point_count (get_page_statistics sample_str vector_page) = 1
   \<and> line_count (get_page_statistics sample_str vector_page) = 2
   \<and> polygon_count (get_page_statistics sample_str vector_page) = 4
   \<and> is_polygon_kind ''re''
   \<and> count_item (Item ''re'' []) init_counters = init_counters\<lparr>polygons := 1\<rparr>
   \<and> ''qu'' \<noteq> ''m'' \<and> ''qu'' \<noteq> ''l'' \<and> \<not> is_polygon_kind ''qu''
   \<and> count_item (Item ''qu'' []) init_counters = init_counters"
proof -
  have re: "is_polygon_kind ''re''" and qu: "\<not> is_polygon_kind ''qu''"
    by (simp_all add: is_polygon_kind_def)
  note a = analyzer_counts_by_kind [of sample_str vector_page "[]" init_counters "''re''"]
  note b = analyzer_counts_by_kind [of sample_str vector_page "[]" init_counters "''qu''"]
  have "count_item (Item ''re'' []) init_counters = init_counters\<lparr>polygons := 1\<rparr>"
    using a re by (simp add: init_counters_def)
  moreover have "count_item (Item ''qu'' []) init_counters = init_counters"
    using b qu by simp
  moreover have "point_count (get_page_statistics sample_str vector_page) = 1"
    using a by (simp add: vector_page_def sample_drawings_def all_items_def)
  moreover have "line_count (get_page_statistics sample_str vector_page) = 2"
    using a by (simp add: vector_page_def sample_drawings_def all_items_def)
  moreover have "polygon_count (get_page_statistics sample_str vector_page) = 4"
    using a by (simp add: vector_page_def sample_drawings_def all_items_def)
  ultimately show ?thesis using re qu by simp
qed

subsection \<open>The colours of a page\<close>

lemma paths_loop_append:
  "paths_loop str (xs @ ys) st = paths_loop str ys (paths_loop str xs st)"
  by (induction xs arbitrary: st) auto

lemma first_seen_snoc:
  "first_seen (xs @ [c]) = (if c \<in> set xs then first_seen xs else first_seen xs @ [c])"
  by (simp add: first_seen_def)

lemma set_first_seen: "set (first_seen xs) = set xs"
  by (simp add: first_seen_def)

lemma seen_colors_snoc:
  "seen_colors str (ps @ [p]) =
     seen_colors str ps @ (case color_value (d_color p) of None \<Rightarrow> [] | Some c \<Rightarrow> [str c])"
  by (simp add: seen_colors_def map_filter_def split: option.splits)

lemma colors_path_step:
  "colors (path_step str p st) =
     (case color_value (d_color p) of
        None \<Rightarrow> colors st
      | Some c \<Rightarrow> if str c \<in> set (colors st) then colors st else colors st @ [str c])"
  by (auto simp: path_step_def add_color_def Let_def items_loop_colors split: option.splits)

lemma paths_loop_colors:
  "colors (paths_loop str paths init_counters) = first_seen (seen_colors str paths)"
proof (induction paths rule: rev_induct)
  case Nil
  show ?case by (simp add: init_counters_def first_seen_def seen_colors_def map_filter_def)
next
  case (snoc p ps)
  show ?case
    by (cases "color_value (d_color p)")
       (simp_all add: paths_loop_append colors_path_step snoc seen_colors_snoc
          first_seen_snoc set_first_seen)
qed

text \<open>
  C4. The colour list accumulated over the paths of a page is the list of the colour
  strings met, each kept once at the place where it was first met: it has no
  duplicate, it has exactly the strings met, and colours met in the order A, B, A, C
  give the list A, B, C.
\<close>

theorem vector_colors_first_seen:
  "colors (paths_loop str (drawings pg) init_counters)
     = rev (remdups (rev (seen_colors str (drawings pg))))
   \<and> distinct (colors (paths_loop str (drawings pg) init_counters))
   \<and> set (colors (paths_loop str (drawings pg) init_counters))
       = set (seen_colors str (drawings pg))
   \<and> seen_colors sample_str sample_drawings
       = [''(1.0, 0.0, 0.0)'', ''(0.0, 1.0, 0.0)'', ''(1.0, 0.0, 0.0)'', ''(0.0, 0.0, 1.0)'']
   \<and> colors (paths_loop sample_str sample_drawings init_counters)
       = [''(1.0, 0.0, 0.0)'', ''(0.0, 1.0, 0.0)'', ''(0.0, 0.0, 1.0)'']"
proof -
  have seen: "seen_colors sample_str sample_drawings
       = [''(1.0, 0.0, 0.0)'', ''(0.0, 1.0, 0.0)'', ''(1.0, 0.0, 0.0)'', ''(0.0, 0.0, 1.0)'']"
    by (simp add: seen_colors_def sample_drawings_def map_filter_def sample_str_def)
  have "colors (paths_loop sample_str sample_drawings init_counters)
       = [''(1.0, 0.0, 0.0)'', ''(0.0, 1.0, 0.0)'', ''(0.0, 0.0, 1.0)'']"
    by (simp add: paths_loop_colors first_seen_def seen)
  with seen show ?thesis
    by (simp add: paths_loop_colors first_seen_def)
qed

subsection \<open>Selecting the largest image\<close>

lemma select_loop_append:
  "select_loop pg (xs @ ys) acc = select_loop pg ys (select_loop pg xs acc)"
  by (induction xs arbitrary: acc) auto

lemma top_size_snoc: "top_size (rs @ [b]) = max (length b) (top_size rs)"
proof -
  have "top_size (rs @ [b]) = Max (insert (length b) (insert 0 (set (map length rs))))"
    by (simp add: top_size_def insert_commute)
  also have "\<dots> = max (length b) (Max (insert 0 (set (map length rs))))"
    by (rule Max_insert) auto
  finally show ?thesis by (simp add: top_size_def)
qed

lemma top_size_ge: "b \<in> set rs \<Longrightarrow> length b \<le> top_size rs"
  by (simp add: top_size_def)

lemma top_size_attained: "0 < top_size rs \<Longrightarrow> \<exists>b\<in>set rs. length b = top_size rs"
proof -
  assume pos: "0 < top_size rs"
  have "top_size rs \<in> insert 0 (set (map length rs))"
    unfolding top_size_def by (rule Max_in) auto
  with pos show ?thesis by auto
qed

lemma resolved_of_snoc:
  "resolved_of pg (xs @ [x]) =
     resolved_of pg xs @ (case extract_image pg x of Inr (Some b) \<Rightarrow> [b] | _ \<Rightarrow> [])"
  by (simp add: resolved_of_def map_filter_def split: sum.splits option.splits)

lemma warnings_of_snoc:
  "warnings_of pg (xs @ [x]) =
     warnings_of pg xs @
       (case extract_image pg x of
          Inl e \<Rightarrow> [Printed (WarnExtractFailed e)]
        | Inr None \<Rightarrow> [Printed (WarnExtractFailed KeyError)]
        | Inr (Some b) \<Rightarrow> [])"
  by (simp add: warnings_of_def map_filter_def split: sum.splits option.splits)

lemma find_app:
  "find P (xs @ ys) = (case find P xs of None \<Rightarrow> find P ys | Some x \<Rightarrow> Some x)"
  by (induction xs) auto

lemma find_snoc_new:
  assumes "\<forall>x\<in>set rs. length x < length b"
  shows "find (\<lambda>x. length x = length b) (rs @ [b]) = Some b"
proof -
  have "find (\<lambda>x. length x = length b) rs = None"
    using assms by (auto simp: find_None_iff)
  then show ?thesis by (simp add: find_app)
qed

lemma find_snoc_old:
  assumes "\<exists>x\<in>set rs. P x"
  shows "find P (rs @ [b]) = find P rs"
proof -
  from assms obtain y where "find P rs = Some y"
    by (cases "find P rs") (auto simp: find_None_iff)
  then show ?thesis by (simp add: find_app)
qed

lemma select_loop_inv:
  "select_loop pg xs ((None, 0), []) =
     ((if top_size (resolved_of pg xs) = 0 then None
       else find (\<lambda>b. length b = top_size (resolved_of pg xs)) (resolved_of pg xs),
       top_size (resolved_of pg xs)),
      warnings_of pg xs)"
proof (induction xs rule: rev_induct)
  case Nil
  show ?case by (simp add: resolved_of_def warnings_of_def map_filter_def top_size_def)
next
  case (snoc x xs)
  let ?rs = "resolved_of pg xs"
  show ?case
  proof (cases "extract_image pg x")
    case (Inl e)
    then show ?thesis
      by (simp add: select_loop_append snoc select_step_def resolved_of_snoc warnings_of_snoc)
  next
    case (Inr r)
    show ?thesis
    proof (cases r)
      case None
      with Inr show ?thesis
        by (simp add: select_loop_append snoc select_step_def resolved_of_snoc warnings_of_snoc)
    next
      case (Some b)
      show ?thesis
      proof (cases "length b > top_size ?rs")
        case True
        then have lt: "\<forall>y\<in>set ?rs. length y < length b"
          using top_size_ge[of _ ?rs] by fastforce
        have ts: "top_size (?rs @ [b]) = length b"
          using True by (simp add: top_size_snoc)
        from True have "b \<noteq> []" by auto
        with True Inr Some show ?thesis
          by (simp add: select_loop_append snoc select_step_def resolved_of_snoc
                warnings_of_snoc ts find_snoc_new[OF lt] Let_def)
      next
        case False
        then have ts: "top_size (?rs @ [b]) = top_size ?rs"
          by (simp add: top_size_snoc)
        have "top_size ?rs \<noteq> 0 \<Longrightarrow>
            find (\<lambda>y. length y = top_size ?rs) (?rs @ [b]) = find (\<lambda>y. length y = top_size ?rs) ?rs"
          using top_size_attained[of ?rs] by (intro find_snoc_old) auto
        with False Inr Some show ?thesis
          by (simp add: select_loop_append snoc select_step_def resolved_of_snoc
                warnings_of_snoc ts Let_def)
      qed
    qed
  qed
qed

lemma top_size_zero_iff: "top_size rs = 0 \<longleftrightarrow> (\<forall>b\<in>set rs. b = [])"
proof
  assume "top_size rs = 0"
  then show "\<forall>b\<in>set rs. b = []" using top_size_ge[of _ rs] by fastforce
next
  assume all: "\<forall>b\<in>set rs. b = []"
  show "top_size rs = 0"
  proof (rule ccontr)
    assume "top_size rs \<noteq> 0"
    then obtain b where "b \<in> set rs" "length b = top_size rs"
      using top_size_attained[of rs] by auto
    with all \<open>top_size rs \<noteq> 0\<close> show False by auto
  qed
qed

lemma top_size_Max: "rs \<noteq> [] \<Longrightarrow> top_size rs = Max (set (map length rs))"
  by (simp add: top_size_def)

lemma select_largest_eq:
  "fst (select_largest pg) =
     (if \<forall>b\<in>set (resolved_of pg (images pg)). b = [] then None
      else longest_first (resolved_of pg (images pg)))"
proof -
  let ?rs = "resolved_of pg (images pg)"
  have "\<not> (\<forall>b\<in>set ?rs. b = []) \<Longrightarrow> top_size ?rs = Max (set (map length ?rs))"
    by (intro top_size_Max) auto
  then show ?thesis
    by (auto simp: select_largest_def select_loop_inv top_size_zero_iff longest_first_def)
qed

lemma longest_first_all_empty:
  "\<forall>b\<in>set rs. b = [] \<Longrightarrow> payload_of (longest_first rs) = []"
  by (cases "longest_first rs")
     (auto simp: payload_of_def longest_first_def dest: find_Some_iff[THEN iffD1] nth_mem)

text \<open>
  C3. The selector hands on the first payload of greatest length among the references
  that resolve (read as line 125 reads it: a selection of no bytes is nothing): it is
  exactly that payload whenever some resolved payload is not empty, so among payloads
  of equal length the first met is taken; it is \<open>None\<close> when no reference resolves; a
  reference that fails to resolve adds one warning and is skipped; and when the
  selection is nothing no file is saved.
\<close>

theorem raster_selector_first_longest:
  "payload_of (fst (select_largest pg))
     = payload_of (longest_first (resolved_of pg (images pg)))
   \<and> ((\<exists>b\<in>set (resolved_of pg (images pg)). b \<noteq> [])
        \<longrightarrow> fst (select_largest pg) = longest_first (resolved_of pg (images pg)))
   \<and> (resolved_of pg (images pg) = [] \<longrightarrow> fst (select_largest pg) = None)
   \<and> snd (select_largest pg) = warnings_of pg (images pg)
   \<and> (payload_of (longest_first (resolved_of pg (images pg))) = []
        \<longrightarrow> extract_largest_image env pg path fmt fs = (fs, warnings_of pg (images pg)))"
proof -
  let ?rs = "resolved_of pg (images pg)"
  have a: "payload_of (fst (select_largest pg)) = payload_of (longest_first ?rs)"
    using longest_first_all_empty[of ?rs]
    by (auto simp: select_largest_eq payload_of_def)
  have b: "fst (select_largest pg) = longest_first ?rs" if "\<exists>b\<in>set ?rs. b \<noteq> []"
    using that by (auto simp: select_largest_eq)
  have c: "fst (select_largest pg) = None" if "?rs = []"
    using that by (simp add: select_largest_eq)
  have d: "snd (select_largest pg) = warnings_of pg (images pg)"
    by (simp add: select_largest_def select_loop_inv)
  have e: "extract_largest_image env pg path fmt fs = (fs, warnings_of pg (images pg))"
    if "payload_of (longest_first ?rs) = []"
  proof -
    from that a have "payload_of (fst (select_largest pg)) = []" by simp
    with d show ?thesis
      by (cases "select_largest pg")
         (auto simp: extract_largest_image_def payload_of_def split: option.splits)
  qed
  show ?thesis using a b c d e by blast
qed

theorem raster_selector_first_longest_witness:
  "resolved_of raster_page (images raster_page) = [[11, 12, 13], [6, 6, 6]]
   \<and> (\<exists>b\<in>set (resolved_of raster_page (images raster_page)). b \<noteq> [])
   \<and> fst (select_largest raster_page) = Some [11, 12, 13]
   \<and> snd (select_largest raster_page)
       = [Printed (WarnExtractFailed (LibraryError ''bad xref''))]
   \<and> resolved_of vector_page (images vector_page) = []
   \<and> fst (select_largest vector_page) = None
   \<and> resolved_of empty_payload_page (images empty_payload_page) = [[]]
   \<and> payload_of (longest_first (resolved_of empty_payload_page (images empty_payload_page))) = []
   \<and> payload_of (fst (select_largest empty_payload_page)) = []
   \<and> extract_largest_image sample_env empty_payload_page ''out/d_1_of_1_largest_image.png''
        ''png'' Map.empty = (Map.empty, [])"
proof -
  have rs: "resolved_of raster_page (images raster_page) = [[11, 12, 13], [6, 6, 6]]"
    by (simp add: resolved_of_def raster_page_def map_filter_def)
  have ws: "warnings_of raster_page (images raster_page)
       = [Printed (WarnExtractFailed (LibraryError ''bad xref''))]"
    by (simp add: warnings_of_def raster_page_def map_filter_def)
  have lf: "longest_first [[11, 12, 13], [6, 6, 6 :: nat]] = Some [11, 12, 13]"
    by (simp add: longest_first_def)
  have rv: "resolved_of vector_page (images vector_page) = []"
    by (simp add: resolved_of_def vector_page_def map_filter_def)
  have re: "resolved_of empty_payload_page (images empty_payload_page) = [[]]"
    by (simp add: resolved_of_def empty_payload_page_def map_filter_def)
  have we: "warnings_of empty_payload_page (images empty_payload_page) = []"
    by (simp add: warnings_of_def empty_payload_page_def map_filter_def)
  have pe: "payload_of (longest_first [[] :: nat list]) = []"
    by (simp add: longest_first_def payload_of_def)
  note r = raster_selector_first_longest [of raster_page]
  note v = raster_selector_first_longest [of vector_page]
  note e = raster_selector_first_longest [of empty_payload_page sample_env
      "''out/d_1_of_1_largest_image.png''" "''png''" Map.empty]
  have "fst (select_largest raster_page) = Some [11, 12, 13]"
    using r by (simp add: rs lf)
  moreover have "snd (select_largest raster_page)
       = [Printed (WarnExtractFailed (LibraryError ''bad xref''))]"
    using r by (simp add: ws)
  moreover have "fst (select_largest vector_page) = None"
    using v by (simp add: rv)
  moreover have "payload_of (fst (select_largest empty_payload_page)) = []"
    using e by (simp add: re pe)
  moreover have "extract_largest_image sample_env empty_payload_page
        ''out/d_1_of_1_largest_image.png'' ''png'' Map.empty = (Map.empty, [])"
    using e by (simp add: re pe we)
  ultimately show ?thesis
    by (simp add: rs rv re pe)
qed

subsection \<open>One page: names, files and rows\<close>

lemma splitext_largest_image:
  assumes "e = ''tiff'' \<or> e = ''png'' \<or> e = ''jpg''"
  shows "splitext (q @ ''_largest_image'' @ CHR ''.'' # e) = (q @ ''_largest_image'', CHR ''.'' # e)"
  using assms by (intro splitext_suffix) auto

lemma format_ext_cases:
  "format_ext fmt = ''.tiff'' \<or> format_ext fmt = ''.png'' \<or> format_ext fmt = ''.jpg''"
  by (simp add: format_ext_def Let_def)

lemma path_join_app:
  "b \<noteq> [] \<Longrightarrow> \<exists>q. \<forall>t. path_join a (b @ t) = q @ t"
  by (cases b) (auto simp: path_join_def)

lemma path_join_inj:
  "b \<noteq> [] \<Longrightarrow> path_join a (b @ s) = path_join a (b @ t) \<longleftrightarrow> s = t"
  by (cases b) (auto simp: path_join_def)

lemma tiff_path_eq:
  "fst (splitext (path_join out (st @ ''_largest_image'' @ format_ext fmt))) @ ''.tiff''
     = path_join out (st @ ''_largest_image'' @ ''.tiff'')"
proof -
  obtain q where q: "\<And>t. path_join out ((st @ ''_largest_image'') @ t) = q @ ''_largest_image'' @ t"
  proof -
    have "\<exists>q. \<forall>t. path_join out (st @ ''_largest_image'' @ t) = q @ ''_largest_image'' @ t"
      by (cases st) (auto simp: path_join_def)
    then show ?thesis using that by auto
  qed
  obtain e where e: "format_ext fmt = CHR ''.'' # e" "e = ''tiff'' \<or> e = ''png'' \<or> e = ''jpg''"
    using format_ext_cases[of fmt] by auto
  have "splitext (path_join out (st @ ''_largest_image'' @ format_ext fmt))
          = (q @ ''_largest_image'', CHR ''.'' # e)"
    using q[of "format_ext fmt"] splitext_largest_image[OF e(2), of q] e(1) by simp
  then show ?thesis using q[of "''.tiff''"] by simp
qed

lemma page_stem_nonempty: "page_stem b k n \<noteq> []"
  by (simp add: page_stem_def)

lemma page_step_fail:
  "page_pdf pg = Inl e \<Longrightarrow> page_step env f out fmt n k pg fs = (fs, [], Inl e)"
  by (simp add: page_step_def Let_def)

lemma page_step_no_images:
  assumes "page_pdf pg = Inr pdf" "images pg = []"
  shows "\<exists>row. page_step env f out fmt n k pg fs =
           (fs(path_join out (split_name f k n) \<mapsto> pdf), [], Inr row)
         \<and> largest_image_file row = ''N/A'' \<and> raster_count row = 0
         \<and> file_size_kb row = of_nat (length pdf) / 1024
         \<and> output_file row = split_name f k n
         \<and> page_number row = k \<and> total_pages row = n"
  using assms
  by (simp add: page_step_def Let_def getsize_def split_name_def get_page_statistics_def)

lemma page_step_images:
  assumes "page_pdf pg = Inr pdf" "images pg \<noteq> []"
  shows "\<exists>row. page_step env f out fmt n k pg fs =
           (fst (extract_largest_image env pg (path_join out (image_name f fmt k n)) fmt
                  (fs(path_join out (split_name f k n) \<mapsto> pdf))),
            snd (extract_largest_image env pg (path_join out (image_name f fmt k n)) fmt
                  (fs(path_join out (split_name f k n) \<mapsto> pdf))),
            Inr row)
         \<and> largest_image_file row = image_name f fmt k n
         \<and> raster_count row = length (images pg)
         \<and> file_size_kb row = of_nat (length pdf) / 1024
         \<and> output_file row = split_name f k n
         \<and> page_number row = k \<and> total_pages row = n"
  using assms
  by (simp add: page_step_def Let_def getsize_def split_name_def image_name_def
        get_page_statistics_def split: prod.splits)

lemma save_to_raises:
  "save_to env img path opts fs = Inl (e, fs1)
     \<Longrightarrow> fs1 = fs \<or> (\<exists>written. fs path \<noteq> None \<and> fs1 = fs(path \<mapsto> written))"
  by (auto simp: save_to_def split: save_result.splits if_splits)

lemma save_to_saves:
  "save_to env img path opts fs = Inr fs' \<Longrightarrow> \<exists>b. fs' = fs(path \<mapsto> b)"
  by (auto simp: save_to_def split: save_result.splits if_splits)

lemma try_save_files:
  assumes "try_save env bs path fmt fs = Inr (fs', evs)"
  shows "(\<exists>b. fs' = fs(path \<mapsto> b)) \<and> evs = [Printed (SavedImage path)]"
  using assms
  by (auto simp: try_save_def split: sum.splits if_splits prod.splits dest: save_to_saves)

lemma try_save_raises:
  assumes "try_save env bs path fmt fs = Inl (e, fs1)"
  shows "fs1 = fs \<or> (\<exists>written. fs path \<noteq> None \<and> fs1 = fs(path \<mapsto> written))"
  using assms
  by (auto simp: try_save_def split: sum.splits if_splits prod.splits dest: save_to_raises)

lemma tiff_path_name:
  "fst (splitext (path_join out (image_name f fmt k n))) @ ''.tiff''
     = path_join out (tiff_name f k n)"
  unfolding image_name_def tiff_name_def by (rule tiff_path_eq)

lemma tiff_fallback_eq:
  "tiff_fallback env bs (path_join out (image_name f fmt k n)) fs =
     (case image_open env bs of
        Inl e2 \<Rightarrow> (fs, [Printed (ErrorNoFormat e2)])
      | Inr img \<Rightarrow>
          (case image_save env img (path_join out (tiff_name f k n)) (TIFF ''tiff_lzw'') of
             Saved tb \<Rightarrow>
               (fs(path_join out (tiff_name f k n) \<mapsto> tb),
                [Printed (SavedTiffInstead (path_join out (tiff_name f k n)))])
           | RaisedBeforeOpen e2 \<Rightarrow> (fs, [Printed (ErrorNoFormat e2)])
           | RaisedAfterOpen e2 written \<Rightarrow>
               (if fs (path_join out (tiff_name f k n)) = None then fs
                else fs(path_join out (tiff_name f k n) \<mapsto> written),
                [Printed (ErrorNoFormat e2)])))"
  by (simp add: tiff_fallback_def tiff_path_name save_to_def Let_def
        split: sum.splits save_result.splits)

lemma tiff_fallback_files:
  "fst (tiff_fallback env bs (path_join out (image_name f fmt k n)) fs) = fs
   \<or> (\<exists>b. fst (tiff_fallback env bs (path_join out (image_name f fmt k n)) fs)
            = fs(path_join out (tiff_name f k n) \<mapsto> b))"
  by (auto simp: tiff_fallback_eq split: sum.splits save_result.splits)

lemma tiff_fallback_events:
  "list_all is_print (snd (tiff_fallback env bs path fs))"
  by (simp add: tiff_fallback_def Let_def split: sum.splits prod.splits)

lemma warnings_of_print: "list_all is_print (warnings_of pg xs)"
  by (induction xs) (auto simp: warnings_of_def map_filter_def split: sum.splits option.splits)

lemma select_largest_events: "snd (select_largest pg) = warnings_of pg (images pg)"
  by (simp add: select_largest_def select_loop_inv)

lemma extract_largest_image_events:
  "list_all is_print (snd (extract_largest_image env pg path fmt fs))"
proof -
  obtain l evs where sl: "select_largest pg = (l, evs)" by (cases "select_largest pg")
  then have evs: "list_all is_print evs"
    using select_largest_events[of pg] warnings_of_print[of pg "images pg"] by simp
  show ?thesis
  proof (cases l)
    case None
    with sl evs show ?thesis by (simp add: extract_largest_image_def)
  next
    case (Some bs)
    show ?thesis
    proof (cases "bs = []")
      case True
      with sl evs Some show ?thesis by (simp add: extract_largest_image_def)
    next
      case False
      show ?thesis
      proof (cases "try_save env bs path fmt fs")
        case (Inl r)
        obtain e fs1 where r: "r = (e, fs1)" by (cases r)
        with Inl sl evs Some False tiff_fallback_events[of env bs path fs1] show ?thesis
          by (auto simp: extract_largest_image_def split: prod.splits)
      next
        case (Inr r)
        obtain fs' evs' where r: "r = (fs', evs')" by (cases r)
        with Inr try_save_files[of env bs path fmt fs fs' evs'] have "evs' = [Printed (SavedImage path)]"
          by simp
        with sl evs Some False Inr r show ?thesis
          by (simp add: extract_largest_image_def)
      qed
    qed
  qed
qed

lemma extract_largest_image_files:
  assumes "p \<noteq> path_join out (image_name f fmt k n)" "p \<noteq> path_join out (tiff_name f k n)"
  shows "fst (extract_largest_image env pg (path_join out (image_name f fmt k n)) fmt fs) p = fs p"
proof -
  let ?path = "path_join out (image_name f fmt k n)"
  obtain l evs where sl: "select_largest pg = (l, evs)" by (cases "select_largest pg")
  show ?thesis
  proof (cases l)
    case None
    with sl show ?thesis by (simp add: extract_largest_image_def)
  next
    case (Some bs)
    show ?thesis
    proof (cases "bs = []")
      case True
      with sl Some show ?thesis by (simp add: extract_largest_image_def)
    next
      case False
      show ?thesis
      proof (cases "try_save env bs ?path fmt fs")
        case (Inl r)
        obtain e fs1 where r: "r = (e, fs1)" by (cases r)
        have "fs1 p = fs p"
          using try_save_raises[of env bs ?path fmt fs e fs1] Inl r assms(1) by auto
        moreover have "fst (tiff_fallback env bs ?path fs1) p = fs1 p"
          using tiff_fallback_files[of env bs out f fmt k n fs1] assms(2) by auto
        ultimately show ?thesis
          using sl Some False Inl r
          by (auto simp: extract_largest_image_def split: prod.splits)
      next
        case (Inr r)
        obtain fs' evs' where r: "r = (fs', evs')" by (cases r)
        with Inr try_save_files[of env bs ?path fmt fs fs' evs'] assms(1) have "fs' p = fs p"
          by auto
        with sl Some False Inr r show ?thesis
          by (simp add: extract_largest_image_def)
      qed
    qed
  qed
qed

lemma split_name_neq:
  "path_join out (split_name f k n) \<noteq> path_join out (image_name f fmt k n)"
  "path_join out (split_name f k n) \<noteq> path_join out (tiff_name f k n)"
  using format_ext_cases[of fmt]
  by (auto simp: split_name_def image_name_def tiff_name_def path_join_inj page_stem_nonempty)

lemma select_largest_no_images: "images pg = [] \<Longrightarrow> select_largest pg = (None, [])"
  by (simp add: select_largest_def)

lemma tiff_name_neq:
  assumes "lower fmt = ''png'' \<or> lower fmt = ''jpeg''"
  shows "tiff_name f k n \<noteq> image_name f fmt k n"
  using assms by (auto simp: tiff_name_def image_name_def format_ext_def)

lemma tiff_path_neq:
  assumes "lower fmt = ''png'' \<or> lower fmt = ''jpeg''"
  shows "path_join out (tiff_name f k n) \<noteq> path_join out (image_name f fmt k n)"
  using assms
  by (auto simp: tiff_name_def image_name_def format_ext_def path_join_inj page_stem_nonempty)

text \<open>
  C9. A page with raster count 0 whose single-page PDF is written gets the row field
  "Largest Image File" = \<open>"N/A"\<close>; the only file written for the page is the
  single-page PDF and nothing is printed, so image extraction is not attempted.
\<close>

theorem no_images_not_applicable:
  assumes "raster_count (get_page_statistics (py_str env) pg) = 0" and "page_pdf pg = Inr pdf"
  shows "\<exists>row. page_step env f out fmt n k pg fs =
            (fs(path_join out (split_name f k n) \<mapsto> pdf), [], Inr row)
          \<and> raster_count row = 0 \<and> largest_image_file row = ''N/A''"
proof -
  from assms(1) have "images pg = []" by (simp add: get_page_statistics_def Let_def)
  from page_step_no_images[OF assms(2) this, where env=env and f=f and out=out and fmt=fmt and n=n and k=k and fs=fs] show ?thesis by auto
qed

text \<open>
  C6 (as the code has it). For every page whose single-page PDF is written, the row is
  produced, the written file holds the page's bytes, and the field "File Size (KB)" is
  the size of that file in bytes divided by 1024.
\<close>

theorem file_size_field_is_kilobytes:
  assumes "page_pdf pg = Inr pdf"
  shows "\<exists>fs' evs row. page_step env f out fmt n k pg fs = (fs', evs, Inr row)
          \<and> output_file row = split_name f k n
          \<and> fs' (path_join out (split_name f k n)) = Some pdf
          \<and> file_size_kb row = of_nat (length pdf) / 1024"
proof (cases "images pg = []")
  case True
  from page_step_no_images[OF assms this, where env=env and f=f and out=out and fmt=fmt and n=n and k=k and fs=fs] show ?thesis by auto
next
  case False
  let ?fs1 = "fs(path_join out (split_name f k n) \<mapsto> pdf)"
  have "fst (extract_largest_image env pg (path_join out (image_name f fmt k n)) fmt ?fs1)
          (path_join out (split_name f k n)) = ?fs1 (path_join out (split_name f k n))"
    by (rule extract_largest_image_files) (rule split_name_neq)+
  with page_step_images[OF assms False, where env=env and f=f and out=out and fmt=fmt and n=n and k=k and fs=fs] show ?thesis by auto
qed

text \<open>
  C10. For a page with images whose single-page PDF is written, the row is produced and
  its field "Largest Image File" is the name built from the extension of the requested
  format, whatever extraction does. When the requested encoding raises and the TIFF
  fallback succeeds, the fallback file is written under the name that ends in
  \<open>.tiff\<close>, on top of the files the failed attempt left: these are the files with the
  single-page PDF, except that a file already there under the requested name may have
  been overwritten by the failed attempt. For a png or jpeg request the name of the
  fallback file (and its path) differs from the name in the row, and when no file of
  the name in the row was there before, none is there afterwards.
\<close>

theorem image_field_keeps_requested_name:
  assumes "images pg \<noteq> []" and "page_pdf pg = Inr pdf"
  shows "(\<exists>row. snd (snd (page_step env f out fmt n k pg fs)) = Inr row
            \<and> largest_image_file row = image_name f fmt k n)
       \<and> (select_largest pg = (Some bs, ws) \<and> bs \<noteq> []
            \<and> try_save env bs (path_join out (image_name f fmt k n)) fmt
                 (fs(path_join out (split_name f k n) \<mapsto> pdf)) = Inl (e, fs')
            \<and> image_open env bs = Inr img
            \<and> image_save env img (path_join out (tiff_name f k n)) (TIFF ''tiff_lzw'') = Saved tb
          \<longrightarrow> fst (page_step env f out fmt n k pg fs)
                = fs'(path_join out (tiff_name f k n) \<mapsto> tb)
              \<and> (fs' = fs(path_join out (split_name f k n) \<mapsto> pdf)
                  \<or> (\<exists>written. fs (path_join out (image_name f fmt k n)) \<noteq> None
                        \<and> fs' = fs(path_join out (split_name f k n) \<mapsto> pdf,
                                   path_join out (image_name f fmt k n) \<mapsto> written)))
              \<and> (lower fmt = ''png'' \<or> lower fmt = ''jpeg''
                   \<longrightarrow> tiff_name f k n \<noteq> image_name f fmt k n
                     \<and> path_join out (tiff_name f k n) \<noteq> path_join out (image_name f fmt k n)
                     \<and> (fs (path_join out (image_name f fmt k n)) = None
                          \<longrightarrow> fst (page_step env f out fmt n k pg fs)
                                (path_join out (image_name f fmt k n)) = None)))"
proof -
  let ?ppath = "path_join out (split_name f k n)"
  let ?ipath = "path_join out (image_name f fmt k n)"
  let ?tpath = "path_join out (tiff_name f k n)"
  note ps = page_step_images[OF assms(2,1), where env=env and f=f and out=out and fmt=fmt
      and n=n and k=k and fs=fs]
  have a: "\<exists>row. snd (snd (page_step env f out fmt n k pg fs)) = Inr row
            \<and> largest_image_file row = image_name f fmt k n"
    using ps by auto
  have b: "fst (page_step env f out fmt n k pg fs) = fs'(?tpath \<mapsto> tb)"
    if "select_largest pg = (Some bs, ws)" "bs \<noteq> []"
       "try_save env bs ?ipath fmt (fs(?ppath \<mapsto> pdf)) = Inl (e, fs')"
       "image_open env bs = Inr img"
       "image_save env img ?tpath (TIFF ''tiff_lzw'') = Saved tb"
    using ps that by (auto simp: extract_largest_image_def tiff_fallback_eq)
  have c: "fs' = fs(?ppath \<mapsto> pdf)
           \<or> (\<exists>written. fs ?ipath \<noteq> None \<and> fs' = fs(?ppath \<mapsto> pdf, ?ipath \<mapsto> written))"
    if "try_save env bs ?ipath fmt (fs(?ppath \<mapsto> pdf)) = Inl (e, fs')"
    using try_save_raises[OF that] split_name_neq(1)[of out f k n fmt] by auto
  have d: "fst (page_step env f out fmt n k pg fs) ?ipath = None"
    if "select_largest pg = (Some bs, ws)" "bs \<noteq> []"
       "try_save env bs ?ipath fmt (fs(?ppath \<mapsto> pdf)) = Inl (e, fs')"
       "image_open env bs = Inr img"
       "image_save env img ?tpath (TIFF ''tiff_lzw'') = Saved tb"
       "lower fmt = ''png'' \<or> lower fmt = ''jpeg''" "fs ?ipath = None"
  proof -
    have ne: "?tpath \<noteq> ?ipath" using that(6) by (rule tiff_path_neq)
    have "fs' = fs(?ppath \<mapsto> pdf)" using c[OF that(3)] that(7) by auto
    then have "fs' ?ipath = None"
      using that(7) split_name_neq(1)[of out f k n fmt] by auto
    with b[OF that(1-5)] ne show ?thesis by auto
  qed
  show ?thesis
    using a b c d tiff_name_neq[of fmt f k n] tiff_path_neq[of fmt out f k n] by blast
qed

text \<open>
  C2 (as the code has it). When encoding the selected image in the requested format
  raises, the original bytes are decoded again and saved once as TIFF under the name
  with the extension \<open>.tiff\<close>, starting from the files the failed attempt left (the
  files with the single-page PDF, where a file already there under the requested name
  may have been overwritten). If decoding or saving raises again, no file is added. In
  every case one warning is printed for the first failure, the row of the page is
  produced, and its field "Largest Image File" holds the name built for the requested
  format.
\<close>

theorem encode_failure_falls_back_once:
  assumes "page_pdf pg = Inr pdf" and "select_largest pg = (Some bs, ws)" and "bs \<noteq> []"
    and "try_save env bs (path_join out (image_name f fmt k n)) fmt
           (fs(path_join out (split_name f k n) \<mapsto> pdf)) = Inl (e, fs')"
  shows "\<exists>row. largest_image_file row = image_name f fmt k n
          \<and> raster_count row = length (images pg)
          \<and> page_step env f out fmt n k pg fs =
             (case image_open env bs of
                Inl e2 \<Rightarrow>
                  (fs', ws @ [Printed (WarnSaveFailed fmt e), Printed (ErrorNoFormat e2)], Inr row)
              | Inr img \<Rightarrow>
                  (case image_save env img (path_join out (tiff_name f k n)) (TIFF ''tiff_lzw'') of
                     Saved tb \<Rightarrow>
                       (fs'(path_join out (tiff_name f k n) \<mapsto> tb),
                        ws @ [Printed (WarnSaveFailed fmt e),
                              Printed (SavedTiffInstead (path_join out (tiff_name f k n)))],
                        Inr row)
                   | RaisedBeforeOpen e2 \<Rightarrow>
                       (fs', ws @ [Printed (WarnSaveFailed fmt e), Printed (ErrorNoFormat e2)],
                        Inr row)
                   | RaisedAfterOpen e2 written \<Rightarrow>
                       (if fs' (path_join out (tiff_name f k n)) = None then fs'
                        else fs'(path_join out (tiff_name f k n) \<mapsto> written),
                        ws @ [Printed (WarnSaveFailed fmt e), Printed (ErrorNoFormat e2)],
                        Inr row)))
          \<and> (fs' = fs(path_join out (split_name f k n) \<mapsto> pdf)
              \<or> (\<exists>written. fs (path_join out (image_name f fmt k n)) \<noteq> None
                    \<and> fs' = fs(path_join out (split_name f k n) \<mapsto> pdf,
                               path_join out (image_name f fmt k n) \<mapsto> written)))"
proof -
  have im: "images pg \<noteq> []" using assms(2) select_largest_no_images[of pg] by auto
  have c: "fs' = fs(path_join out (split_name f k n) \<mapsto> pdf)
           \<or> (\<exists>written. fs (path_join out (image_name f fmt k n)) \<noteq> None
                 \<and> fs' = fs(path_join out (split_name f k n) \<mapsto> pdf,
                            path_join out (image_name f fmt k n) \<mapsto> written))"
    using try_save_raises[OF assms(4)] split_name_neq(1)[of out f k n fmt] by auto
  from page_step_images[OF assms(1) im, where env=env and f=f and out=out and fmt=fmt
      and n=n and k=k and fs=fs] assms(2,3,4)
  obtain row where row: "largest_image_file row = image_name f fmt k n"
      "raster_count row = length (images pg)"
      "page_step env f out fmt n k pg fs =
         (fst (tiff_fallback env bs (path_join out (image_name f fmt k n)) fs'),
          ws @ Printed (WarnSaveFailed fmt e)
             # snd (tiff_fallback env bs (path_join out (image_name f fmt k n)) fs'),
          Inr row)"
    by (auto simp: extract_largest_image_def split: prod.splits)
  show ?thesis
    using row c
    by (intro exI[of _ row]) (simp add: tiff_fallback_eq split: sum.splits save_result.splits)
qed

lemma lower_samples: "lower ''png'' = ''png''" "lower ''jpeg'' = ''jpeg''" "lower ''tiff'' = ''tiff''"
  by (simp_all add: lower_def lower_char_def)

lemma names_good:
  "split_name ''in/good.pdf'' (Suc 0) 2 = ''good_1_of_2.pdf''"
  "split_name ''in/good.pdf'' 2 2 = ''good_2_of_2.pdf''"
  "image_name ''in/good.pdf'' ''png'' 2 2 = ''good_2_of_2_largest_image.png''"
  "tiff_name ''in/good.pdf'' 2 2 = ''good_2_of_2_largest_image.tiff''"
  by (simp_all add: split_name_def image_name_def tiff_name_def basename_def splitext_def
        splitext_loop.simps page_stem_def str_nat.simps format_ext_def lower_samples Let_def)

lemma names_d:
  "split_name ''in/d.pdf'' (Suc 0) (Suc 0) = ''d_1_of_1.pdf''"
  "image_name ''in/d.pdf'' ''png'' (Suc 0) (Suc 0) = ''d_1_of_1_largest_image.png''"
  "tiff_name ''in/d.pdf'' (Suc 0) (Suc 0) = ''d_1_of_1_largest_image.tiff''"
  by (simp_all add: split_name_def image_name_def tiff_name_def basename_def splitext_def
        splitext_loop.simps page_stem_def str_nat.simps format_ext_def lower_samples Let_def)

lemma joins:
  "path_join ''out'' ''good_1_of_2.pdf'' = ''out/good_1_of_2.pdf''"
  "path_join ''out'' ''good_2_of_2.pdf'' = ''out/good_2_of_2.pdf''"
  "path_join ''out'' ''good_2_of_2_largest_image.png'' = ''out/good_2_of_2_largest_image.png''"
  "path_join ''out'' ''good_2_of_2_largest_image.tiff'' = ''out/good_2_of_2_largest_image.tiff''"
  "path_join ''out'' ''d_1_of_1.pdf'' = ''out/d_1_of_1.pdf''"
  "path_join ''out'' ''d_1_of_1_largest_image.png'' = ''out/d_1_of_1_largest_image.png''"
  "path_join ''out'' ''d_1_of_1_largest_image.tiff'' = ''out/d_1_of_1_largest_image.tiff''"
  by (simp_all add: path_join_def)

lemma select_raster_page:
  "select_largest raster_page
     = (Some [11, 12, 13], [Printed (WarnExtractFailed (LibraryError ''bad xref''))])"
  by (simp add: select_largest_def raster_page_def select_step_def Let_def)

lemma select_junk_page: "select_largest junk_page = (Some [9, 9, 9, 9], [])"
  by (simp add: select_largest_def junk_page_def select_step_def Let_def)

lemma try_save_png_sample:
  "try_save sample_env [11, 12, 13] path ''png'' fs
     = Inl (LibraryError ''encoder error'', if fs path = None then fs else fs(path \<mapsto> []))"
  by (simp add: try_save_def sample_env_def save_to_def lower_samples)

lemma try_save_junk:
  "try_save sample_env [9, 9, 9, 9] path fmt fs
     = Inl (LibraryError ''cannot identify image file'', fs)"
  by (simp add: try_save_def sample_env_def)

lemma try_save_png_stale:
  "try_save sample_env [11, 12, 13] ''out/good_2_of_2_largest_image.png'' ''png''
       (stale_files(''out/good_2_of_2.pdf'' \<mapsto> [37, 80, 68, 70]))
     = Inl (LibraryError ''encoder error'',
            stale_files(''out/good_2_of_2.pdf'' \<mapsto> [37, 80, 68, 70],
                        ''out/good_2_of_2_largest_image.png'' \<mapsto> []))"
  by (simp add: try_save_png_sample stale_files_def)

lemma try_save_png_fresh:
  "try_save sample_env [11, 12, 13] ''out/good_2_of_2_largest_image.png'' ''png''
       [''out/good_2_of_2.pdf'' \<mapsto> [37, 80, 68, 70]]
     = Inl (LibraryError ''encoder error'', [''out/good_2_of_2.pdf'' \<mapsto> [37, 80, 68, 70]])"
  by (simp add: try_save_png_sample)

lemma sample_open_rgba: "image_open sample_env [11, 12, 13] = Inr rgba_img"
  by (simp add: sample_env_def)

lemma sample_save_tiff_rgba:
  "image_save sample_env rgba_img p (TIFF ''tiff_lzw'') = Saved [10, 200, 20, 210, 30, 220, 0, 255]"
  by (simp add: sample_env_def rgba_img_def)

theorem no_images_not_applicable_witness:
  "raster_count (get_page_statistics (py_str sample_env) vector_page) = 0
   \<and> page_pdf vector_page = Inr (replicate 2048 0)
   \<and> fst (page_step sample_env ''in/good.pdf'' ''out'' ''png'' 2 1 vector_page Map.empty)
       = [''out/good_1_of_2.pdf'' \<mapsto> replicate 2048 0]
   \<and> fst (snd (page_step sample_env ''in/good.pdf'' ''out'' ''png'' 2 1 vector_page Map.empty)) = []
   \<and> map_sum id largest_image_file
        (snd (snd (page_step sample_env ''in/good.pdf'' ''out'' ''png'' 2 1 vector_page Map.empty)))
       = Inr ''N/A''"
proof -
  have h1: "raster_count (get_page_statistics (py_str sample_env) vector_page) = 0"
    by (simp add: get_page_statistics_def vector_page_def Let_def)
  have h2: "page_pdf vector_page = Inr (replicate 2048 0)"
    by (simp add: vector_page_def)
  from no_images_not_applicable [OF h1 h2, where f = "''in/good.pdf''" and out = "''out''" and fmt = "''png''"
      and n = 2 and k = 1 and fs = Map.empty]
  obtain row where
    "page_step sample_env ''in/good.pdf'' ''out'' ''png'' 2 1 vector_page Map.empty =
       ([path_join ''out'' (split_name ''in/good.pdf'' 1 2) \<mapsto> replicate 2048 0], [], Inr row)"
    "largest_image_file row = ''N/A''"
    by auto
  with h1 h2 show ?thesis by (simp add: names_good joins)
qed

theorem file_size_field_is_kilobytes_witness:
  "page_pdf raster_page = Inr [37, 80, 68, 70]
   \<and> map_sum id file_size_kb
        (snd (snd (page_step sample_env ''in/good.pdf'' ''out'' ''png'' 2 2 raster_page Map.empty)))
       = Inr (4 / 1024)
   \<and> map_sum id output_file
        (snd (snd (page_step sample_env ''in/good.pdf'' ''out'' ''png'' 2 2 raster_page Map.empty)))
       = Inr ''good_2_of_2.pdf''
   \<and> fst (page_step sample_env ''in/good.pdf'' ''out'' ''png'' 2 2 raster_page Map.empty)
        ''out/good_2_of_2.pdf'' = Some [37, 80, 68, 70]"
proof -
  have h: "page_pdf raster_page = Inr [37, 80, 68, 70]"
    by (simp add: raster_page_def)
  from file_size_field_is_kilobytes [OF h, where env = sample_env and f = "''in/good.pdf''" and out = "''out''"
      and fmt = "''png''" and n = 2 and k = 2 and fs = Map.empty]
  obtain fs' evs row where
    "page_step sample_env ''in/good.pdf'' ''out'' ''png'' 2 2 raster_page Map.empty = (fs', evs, Inr row)"
    "output_file row = split_name ''in/good.pdf'' 2 2"
    "fs' (path_join ''out'' (split_name ''in/good.pdf'' 2 2)) = Some [37, 80, 68, 70]"
    "file_size_kb row = of_nat (length [37, 80, 68, 70 :: nat]) / 1024"
    by auto
  with h show ?thesis by (simp add: names_good joins)
qed

text \<open>
  C6 as stated fails: for a single-page PDF of 2048 bytes the field holds 2, not 2048.
\<close>

theorem file_size_field_not_bytes_counterexample:
  "page_pdf vector_page = Inr (replicate 2048 0)
   \<and> fst (page_step sample_env ''in/good.pdf'' ''out'' ''tiff'' 2 1 vector_page Map.empty)
        ''out/good_1_of_2.pdf'' = Some (replicate 2048 0)
   \<and> length (replicate 2048 (0::nat)) = 2048
   \<and> map_sum id file_size_kb
        (snd (snd (page_step sample_env ''in/good.pdf'' ''out'' ''tiff'' 2 1 vector_page Map.empty)))
       = Inr 2
   \<and> map_sum id file_size_kb
        (snd (snd (page_step sample_env ''in/good.pdf'' ''out'' ''tiff'' 2 1 vector_page Map.empty)))
       \<noteq> Inr 2048"
proof -
  have h1: "page_pdf vector_page = Inr (replicate 2048 0)" and h2: "images vector_page = []"
    by (simp_all add: vector_page_def)
  from page_step_no_images [OF h1 h2, where env = sample_env and f = "''in/good.pdf''"
      and out = "''out''" and fmt = "''tiff''" and n = 2 and k = 1 and fs = Map.empty]
  obtain row where
    "page_step sample_env ''in/good.pdf'' ''out'' ''tiff'' 2 1 vector_page Map.empty =
       ([path_join ''out'' (split_name ''in/good.pdf'' 1 2) \<mapsto> replicate 2048 0], [], Inr row)"
    "file_size_kb row = of_nat (length (replicate 2048 (0::nat))) / 1024"
    by auto
  with h1 show ?thesis by (simp add: names_good joins)
qed

theorem image_field_keeps_requested_name_witness:
  "images raster_page \<noteq> [] \<and> page_pdf raster_page = Inr [37, 80, 68, 70]
   \<and> lower ''png'' = ''png''
   \<and> map_sum id largest_image_file
        (snd (snd (page_step sample_env ''in/good.pdf'' ''out'' ''png'' 2 2 raster_page Map.empty)))
       = Inr ''good_2_of_2_largest_image.png''
   \<and> fst (page_step sample_env ''in/good.pdf'' ''out'' ''png'' 2 2 raster_page Map.empty)
       = [''out/good_2_of_2.pdf'' \<mapsto> [37, 80, 68, 70],
          ''out/good_2_of_2_largest_image.tiff'' \<mapsto> [10, 200, 20, 210, 30, 220, 0, 255]]
   \<and> fst (page_step sample_env ''in/good.pdf'' ''out'' ''png'' 2 2 raster_page Map.empty)
        ''out/good_2_of_2_largest_image.png'' = None
   \<and> ''good_2_of_2_largest_image.tiff'' \<noteq> ''good_2_of_2_largest_image.png''
   \<and> stale_files ''out/good_2_of_2_largest_image.png'' = Some [7, 7, 7]
   \<and> map_sum id largest_image_file
        (snd (snd (page_step sample_env ''in/good.pdf'' ''out'' ''png'' 2 2 raster_page stale_files)))
       = Inr ''good_2_of_2_largest_image.png''
   \<and> fst (page_step sample_env ''in/good.pdf'' ''out'' ''png'' 2 2 raster_page stale_files)
        ''out/good_2_of_2_largest_image.tiff'' = Some [10, 200, 20, 210, 30, 220, 0, 255]
   \<and> fst (page_step sample_env ''in/good.pdf'' ''out'' ''png'' 2 2 raster_page stale_files)
        ''out/good_2_of_2_largest_image.png'' = Some []"
proof -
  have h1: "images raster_page \<noteq> []" and h2: "page_pdf raster_page = Inr [37, 80, 68, 70]"
    by (simp_all add: raster_page_def)
  have st: "stale_files ''out/good_2_of_2_largest_image.png'' = Some [7, 7, 7]"
    by (simp add: stale_files_def)
  note fresh = image_field_keeps_requested_name [OF h1 h2, where env = sample_env
      and f = "''in/good.pdf''" and out = "''out''"
      and fmt = "''png''" and n = 2 and k = 2 and fs = Map.empty and bs = "[11, 12, 13]"
      and ws = "[Printed (WarnExtractFailed (LibraryError ''bad xref''))]"
      and e = "LibraryError ''encoder error''" and img = rgba_img
      and fs' = "[''out/good_2_of_2.pdf'' \<mapsto> [37, 80, 68, 70]]"
      and tb = "[10, 200, 20, 210, 30, 220, 0, 255]"]
  note stale = image_field_keeps_requested_name [OF h1 h2, where env = sample_env
      and f = "''in/good.pdf''" and out = "''out''"
      and fmt = "''png''" and n = 2 and k = 2 and fs = stale_files and bs = "[11, 12, 13]"
      and ws = "[Printed (WarnExtractFailed (LibraryError ''bad xref''))]"
      and e = "LibraryError ''encoder error''" and img = rgba_img
      and fs' = "stale_files(''out/good_2_of_2.pdf'' \<mapsto> [37, 80, 68, 70],
                             ''out/good_2_of_2_largest_image.png'' \<mapsto> [])"
      and tb = "[10, 200, 20, 210, 30, 220, 0, 255]"]
  have a: "map_sum id largest_image_file
        (snd (snd (page_step sample_env ''in/good.pdf'' ''out'' ''png'' 2 2 raster_page Map.empty)))
       = Inr ''good_2_of_2_largest_image.png''"
    using fresh by (auto simp: names_good)
  have b: "fst (page_step sample_env ''in/good.pdf'' ''out'' ''png'' 2 2 raster_page Map.empty)
       = [''out/good_2_of_2.pdf'' \<mapsto> [37, 80, 68, 70],
          ''out/good_2_of_2_largest_image.tiff'' \<mapsto> [10, 200, 20, 210, 30, 220, 0, 255]]"
    using fresh
    by (simp add: names_good joins select_raster_page try_save_png_fresh sample_open_rgba
          sample_save_tiff_rgba)
  have c: "map_sum id largest_image_file
        (snd (snd (page_step sample_env ''in/good.pdf'' ''out'' ''png'' 2 2 raster_page stale_files)))
       = Inr ''good_2_of_2_largest_image.png''"
    using stale by (auto simp: names_good)
  have d: "fst (page_step sample_env ''in/good.pdf'' ''out'' ''png'' 2 2 raster_page stale_files)
       = stale_files(''out/good_2_of_2.pdf'' \<mapsto> [37, 80, 68, 70],
                     ''out/good_2_of_2_largest_image.png'' \<mapsto> [],
                     ''out/good_2_of_2_largest_image.tiff'' \<mapsto> [10, 200, 20, 210, 30, 220, 0, 255])"
    using stale
    by (simp add: names_good joins select_raster_page try_save_png_stale sample_open_rgba
          sample_save_tiff_rgba)
  show ?thesis
    using h1 h2 st a c by (simp add: b d lower_samples)
qed

theorem encode_failure_falls_back_once_witness:
  "page_pdf raster_page = Inr [37, 80, 68, 70]
   \<and> select_largest raster_page
       = (Some [11, 12, 13], [Printed (WarnExtractFailed (LibraryError ''bad xref''))])
   \<and> stale_files ''out/good_2_of_2_largest_image.png'' = Some [7, 7, 7]
   \<and> try_save sample_env [11, 12, 13] ''out/good_2_of_2_largest_image.png'' ''png''
        (stale_files(''out/good_2_of_2.pdf'' \<mapsto> [37, 80, 68, 70]))
       = Inl (LibraryError ''encoder error'',
              stale_files(''out/good_2_of_2.pdf'' \<mapsto> [37, 80, 68, 70],
                          ''out/good_2_of_2_largest_image.png'' \<mapsto> []))
   \<and> fst (page_step sample_env ''in/good.pdf'' ''out'' ''png'' 2 2 raster_page stale_files)
       = stale_files(''out/good_2_of_2.pdf'' \<mapsto> [37, 80, 68, 70],
                     ''out/good_2_of_2_largest_image.png'' \<mapsto> [],
                     ''out/good_2_of_2_largest_image.tiff'' \<mapsto> [10, 200, 20, 210, 30, 220, 0, 255])
   \<and> fst (snd (page_step sample_env ''in/good.pdf'' ''out'' ''png'' 2 2 raster_page stale_files))
       = [Printed (WarnExtractFailed (LibraryError ''bad xref'')),
          Printed (WarnSaveFailed ''png'' (LibraryError ''encoder error'')),
          Printed (SavedTiffInstead ''out/good_2_of_2_largest_image.tiff'')]
   \<and> map_sum id largest_image_file
        (snd (snd (page_step sample_env ''in/good.pdf'' ''out'' ''png'' 2 2 raster_page stale_files)))
       = Inr ''good_2_of_2_largest_image.png''"
proof -
  have h1: "page_pdf raster_page = Inr [37, 80, 68, 70]"
    by (simp add: raster_page_def)
  have st: "stale_files ''out/good_2_of_2_largest_image.png'' = Some [7, 7, 7]"
    by (simp add: stale_files_def)
  have ne: "[11, 12, 13 :: nat] \<noteq> []" by simp
  have tr: "try_save sample_env [11, 12, 13]
        (path_join ''out'' (image_name ''in/good.pdf'' ''png'' 2 2)) ''png''
        (stale_files(path_join ''out'' (split_name ''in/good.pdf'' 2 2) \<mapsto> [37, 80, 68, 70]))
       = Inl (LibraryError ''encoder error'',
              stale_files(''out/good_2_of_2.pdf'' \<mapsto> [37, 80, 68, 70],
                          ''out/good_2_of_2_largest_image.png'' \<mapsto> []))"
    by (simp add: names_good joins try_save_png_stale)
  from encode_failure_falls_back_once [OF h1 select_raster_page ne tr]
  obtain row where
    "largest_image_file row = image_name ''in/good.pdf'' ''png'' 2 2"
    "page_step sample_env ''in/good.pdf'' ''out'' ''png'' 2 2 raster_page stale_files =
       (stale_files(''out/good_2_of_2.pdf'' \<mapsto> [37, 80, 68, 70],
                    ''out/good_2_of_2_largest_image.png'' \<mapsto> [],
                    ''out/good_2_of_2_largest_image.tiff'' \<mapsto> [10, 200, 20, 210, 30, 220, 0, 255]),
        [Printed (WarnExtractFailed (LibraryError ''bad xref'')),
         Printed (WarnSaveFailed ''png'' (LibraryError ''encoder error'')),
         Printed (SavedTiffInstead ''out/good_2_of_2_largest_image.tiff'')],
        Inr row)"
    by (auto simp: names_good joins sample_open_rgba sample_save_tiff_rgba)
  with h1 st show ?thesis
    by (simp add: names_good select_raster_page try_save_png_stale)
qed

text \<open>
  C2 as stated fails in its last part: when the requested encoding and the fallback both
  raise, no image file exists, yet the field of the row is the image file name, the same
  as after a successful extraction, and not a value marking absence.
\<close>

theorem failed_fallback_field_counterexample:
  "select_largest junk_page = (Some [9, 9, 9, 9], [])
   \<and> fst (page_step sample_env ''in/d.pdf'' ''out'' ''png'' 1 1 junk_page Map.empty)
       = [''out/d_1_of_1.pdf'' \<mapsto> [37, 80, 68, 70]]
   \<and> fst (snd (page_step sample_env ''in/d.pdf'' ''out'' ''png'' 1 1 junk_page Map.empty))
       = [Printed (WarnSaveFailed ''png'' (LibraryError ''cannot identify image file'')),
          Printed (ErrorNoFormat (LibraryError ''cannot identify image file''))]
   \<and> map_sum id largest_image_file
        (snd (snd (page_step sample_env ''in/d.pdf'' ''out'' ''png'' 1 1 junk_page Map.empty)))
       = Inr ''d_1_of_1_largest_image.png''
   \<and> ''d_1_of_1_largest_image.png'' \<noteq> ''N/A''"
proof -
  have h1: "page_pdf junk_page = Inr [37, 80, 68, 70]" and h2: "images junk_page \<noteq> []"
    by (simp_all add: junk_page_def)
  have h3: "image_open sample_env [9, 9, 9, 9] = Inl (LibraryError ''cannot identify image file'')"
    by (simp add: sample_env_def)
  from page_step_images [OF h1 h2, where env = sample_env and f = "''in/d.pdf''"
      and out = "''out''" and fmt = "''png''" and n = 1 and k = 1 and fs = Map.empty]
  obtain row where
    "page_step sample_env ''in/d.pdf'' ''out'' ''png'' 1 1 junk_page Map.empty =
       (fst (extract_largest_image sample_env junk_page ''out/d_1_of_1_largest_image.png'' ''png''
              [''out/d_1_of_1.pdf'' \<mapsto> [37, 80, 68, 70]]),
        snd (extract_largest_image sample_env junk_page ''out/d_1_of_1_largest_image.png'' ''png''
              [''out/d_1_of_1.pdf'' \<mapsto> [37, 80, 68, 70]]),
        Inr row)"
    "largest_image_file row = ''d_1_of_1_largest_image.png''"
    by (auto simp: names_d joins)
  then show ?thesis
    by (simp add: select_junk_page extract_largest_image_def try_save_junk tiff_fallback_def h3 Let_def)
qed

text \<open>
  C1. An \<open>LA\<close> image has two bands, so taking band 3 of its \<open>split\<close> raises
  \<open>IndexError\<close>: for the target format jpeg no JPEG is written, the failure is caught
  and the image is saved by the TIFF fallback with its alpha channel.
\<close>

theorem jpeg_la_image_raises_and_falls_back:
  "im_mode la_img = ''LA'' \<and> length (split la_img) = 2
   \<and> select_largest la_page = (Some [4, 5], [])
   \<and> image_open sample_env [4, 5] = Inr la_img
   \<and> jpeg_prepare sample_env la_img = Inl IndexError
   \<and> fst (extract_largest_image sample_env la_page ''out/d_1_of_1_largest_image.jpg'' ''jpeg'' Map.empty)
       = [''out/d_1_of_1_largest_image.tiff'' \<mapsto> [10, 200, 0, 255]]
   \<and> snd (extract_largest_image sample_env la_page ''out/d_1_of_1_largest_image.jpg'' ''jpeg'' Map.empty)
       = [Printed (WarnSaveFailed ''jpeg'' IndexError),
          Printed (SavedTiffInstead ''out/d_1_of_1_largest_image.tiff'')]"
proof -
  have sel: "select_largest la_page = (Some [4, 5], [])"
    by (simp add: select_largest_def la_page_def select_step_def Let_def)
  have op: "image_open sample_env [4, 5] = Inr la_img"
    by (simp add: sample_env_def)
  have prep: "jpeg_prepare sample_env la_img = Inl IndexError"
    by (simp add: jpeg_prepare_def la_img_def tuple_index_def split_def Let_def)
  have tr: "try_save sample_env [4, 5] p ''jpeg'' fs = Inl (IndexError, fs)" for p fs
    by (simp add: try_save_def op prep lower_samples)
  have sp: "splitext ''out/d_1_of_1_largest_image.jpg'' = (''out/d_1_of_1_largest_image'', ''.jpg'')"
    by (simp add: splitext_def splitext_loop.simps Let_def)
  have sv: "image_save sample_env la_img p (TIFF ''tiff_lzw'') = Saved [10, 200, 0, 255]" for p
    by (simp add: sample_env_def la_img_def)
  have fb: "tiff_fallback sample_env [4, 5] ''out/d_1_of_1_largest_image.jpg'' Map.empty
      = ([''out/d_1_of_1_largest_image.tiff'' \<mapsto> [10, 200, 0, 255]],
         [Printed (SavedTiffInstead ''out/d_1_of_1_largest_image.tiff'')])"
    by (simp add: tiff_fallback_def sp op sv save_to_def Let_def)
  show ?thesis
    by (simp add: sel op prep extract_largest_image_def tr fb)
       (simp add: la_img_def split_def)
qed

subsection \<open>Documents and the batch\<close>

lemma page_step_events:
  "list_all is_print (fst (snd (page_step env f out fmt n k pg fs)))"
proof (cases "page_pdf pg")
  case (Inl e)
  then show ?thesis by (simp add: page_step_fail)
next
  case (Inr pdf)
  show ?thesis
  proof (cases "images pg = []")
    case True
    from page_step_no_images[OF Inr True, where env=env and f=f and out=out and fmt=fmt
        and n=n and k=k and fs=fs]
    show ?thesis by auto
  next
    case False
    from page_step_images[OF Inr False, where env=env and f=f and out=out and fmt=fmt
        and n=n and k=k and fs=fs] extract_largest_image_events
    show ?thesis by auto
  qed
qed

lemma page_step_row_indep:
  "snd (snd (page_step env f out fmt n k pg fs)) = snd (snd (page_step env f out fmt n k pg fs'))"
  by (simp add: page_step_def Let_def getsize_def split: sum.splits prod.splits)

lemma pages_loop_Cons:
  "pages_loop env f out fmt n k (pg # pgs) fs =
     (let r1 = page_step env f out fmt n k pg fs in
      case snd (snd r1) of
        Inl e \<Rightarrow> (fst r1, fst (snd r1), Inl e)
      | Inr r \<Rightarrow>
          (let r2 = pages_loop env f out fmt n (k + 1) pgs (fst r1) in
           (fst r2, fst (snd r1) @ fst (snd r2),
            case snd (snd r2) of Inl e \<Rightarrow> Inl e | Inr rs \<Rightarrow> Inr (r # rs))))"
  by (simp add: Let_def split: prod.splits sum.splits)

lemma pages_loop_events:
  "list_all is_print (fst (snd (pages_loop env f out fmt n k pgs fs)))"
proof (induction pgs arbitrary: k fs)
  case Nil
  show ?case by simp
next
  case (Cons pg pgs)
  show ?case
    using page_step_events[of env f out fmt n k pg fs] Cons
    by (simp add: pages_loop_Cons Let_def del: pages_loop.simps split: sum.splits)
qed

lemma pages_loop_row_indep:
  "snd (snd (pages_loop env f out fmt n k pgs fs)) = snd (snd (pages_loop env f out fmt n k pgs fs'))"
proof (induction pgs arbitrary: k fs fs')
  case Nil
  show ?case by simp
next
  case (Cons pg pgs)
  have a: "snd (snd (page_step env f out fmt n k pg fs)) = snd (snd (page_step env f out fmt n k pg fs'))"
    by (rule page_step_row_indep)
  have b: "snd (snd (pages_loop env f out fmt n (Suc k) pgs (fst (page_step env f out fmt n k pg fs))))
      = snd (snd (pages_loop env f out fmt n (Suc k) pgs (fst (page_step env f out fmt n k pg fs'))))"
    by (rule Cons)
  show ?case
    by (simp add: pages_loop_Cons Let_def a b del: pages_loop.simps split: sum.splits)
qed

lemma extract_row_indep:
  "snd (snd (extract_pdf_statistics env f out fmt fs))
     = snd (snd (extract_pdf_statistics env f out fmt fs'))"
proof (cases "fitz_open env f")
  case (Inl e)
  then show ?thesis by (simp add: extract_pdf_statistics_def)
next
  case (Inr doc)
  have "snd (snd (pages_loop env f out fmt (length doc) 1 doc fs))
      = snd (snd (pages_loop env f out fmt (length doc) 1 doc fs'))"
    by (rule pages_loop_row_indep)
  with Inr show ?thesis
    by (auto simp: extract_pdf_statistics_def split: prod.splits sum.splits)
qed

lemma files_loop_Cons:
  "files_loop env out fmt (f # rest) fs =
     (let r1 = extract_pdf_statistics env f out fmt fs;
          r2 = files_loop env out fmt rest (fst r1)
      in (fst r2,
          Printed (Processing f) # fst (snd r1)
            @ (case snd (snd r1) of Inl e \<Rightarrow> [Printed (ErrorProcessing f e)] | Inr st \<Rightarrow> [])
            @ fst (snd r2),
          (case snd (snd r1) of Inl e \<Rightarrow> [] | Inr st \<Rightarrow> st) @ snd (snd r2)))"
  by (simp add: Let_def split: prod.splits sum.splits)

lemma rows_of_any:
  "rows_of env out fmt f =
     (case snd (snd (extract_pdf_statistics env f out fmt fs)) of Inl e \<Rightarrow> [] | Inr st \<Rightarrow> st)"
  unfolding rows_of_def using extract_row_indep[of env f out fmt Map.empty fs] by simp

lemma failure_of_any:
  "failure_of env out fmt f =
     (case snd (snd (extract_pdf_statistics env f out fmt fs)) of Inl e \<Rightarrow> Some e | Inr st \<Rightarrow> None)"
  unfolding failure_of_def using extract_row_indep[of env f out fmt Map.empty fs] by simp

lemma files_loop_rows:
  "snd (snd (files_loop env out fmt files fs)) = concat (map (rows_of env out fmt) files)"
proof (induction files arbitrary: fs)
  case Nil
  show ?case by simp
next
  case (Cons f rest)
  show ?case
    by (simp add: files_loop_Cons Let_def Cons rows_of_any[of env out fmt f fs]
          del: files_loop.simps)
qed

lemma files_loop_failures:
  "f \<in> set files \<Longrightarrow> failure_of env out fmt f = Some e
     \<Longrightarrow> Printed (ErrorProcessing f e) \<in> set (fst (snd (files_loop env out fmt files fs)))"
proof (induction files arbitrary: fs)
  case Nil
  then show ?case by simp
next
  case (Cons g rest)
  show ?case
  proof (cases "f = g")
    case True
    with Cons.prems(2) have "snd (snd (extract_pdf_statistics env g out fmt fs)) = Inl e"
      by (simp add: failure_of_any[of env out fmt g fs] split: sum.splits)
    then show ?thesis
      by (simp add: files_loop_Cons Let_def True del: files_loop.simps)
  next
    case False
    with Cons.prems have "f \<in> set rest" by simp
    from Cons.IH[OF this Cons.prems(2)] show ?thesis
      by (simp add: files_loop_Cons Let_def del: files_loop.simps)
  qed
qed

text \<open>
  C8. The rows of the report are the rows of the documents in the order found, where a
  document whose processing raises gives no row; for every such document one error line
  naming it is printed, and the documents after it are processed all the same.
\<close>

theorem batch_skips_failed_documents:
  "snd (snd (process_all_pdfs env input_dir files out fmt fs))
     = concat (map (rows_of env out fmt) files)
   \<and> (f \<in> set files \<and> failure_of env out fmt f = Some e
        \<longrightarrow> rows_of env out fmt f = []
          \<and> Printed (ErrorProcessing f e)
              \<in> set (fst (snd (process_all_pdfs env input_dir files out fmt fs))))"
proof -
  have rows: "snd (snd (process_all_pdfs env input_dir files out fmt fs))
     = concat (map (rows_of env out fmt) files)"
    using files_loop_rows[of env out fmt files fs]
    by (auto simp: process_all_pdfs_def Let_def split: prod.splits)
  have ev: "Printed (ErrorProcessing f e)
              \<in> set (fst (snd (process_all_pdfs env input_dir files out fmt fs)))"
    if "f \<in> set files" "failure_of env out fmt f = Some e"
    using files_loop_failures[OF that, of fs] that(1)
    by (auto simp: process_all_pdfs_def Let_def split: prod.splits)
  have none: "rows_of env out fmt f = []" if "failure_of env out fmt f = Some e"
    using that by (simp add: rows_of_def failure_of_def split: sum.splits)
  show ?thesis using rows ev none by blast
qed

text \<open>
  C7 (as the code has it). When the processing of a document returns its rows, its
  events are: the document opened, then only printed lines for its pages, then the
  document closed; in the batch these events come after the line announcing the
  document and before every event of the documents that follow.
\<close>

theorem document_closed_after_success:
  assumes "extract_pdf_statistics env f out fmt fs = (fs1, evs, Inr rows)"
  shows "\<exists>mid. evs = Opened f # mid @ [Closed f] \<and> list_all is_print mid
           \<and> files_loop env out fmt (f # rest) fs =
               (fst (files_loop env out fmt rest fs1),
                Printed (Processing f) # Opened f # mid @ Closed f
                  # fst (snd (files_loop env out fmt rest fs1)),
                rows @ snd (snd (files_loop env out fmt rest fs1)))"
proof (cases "fitz_open env f")
  case (Inl e)
  with assms show ?thesis by (simp add: extract_pdf_statistics_def)
next
  case (Inr doc)
  let ?r = "pages_loop env f out fmt (length doc) 1 doc fs"
  have pr: "list_all is_print (fst (snd ?r))" by (rule pages_loop_events)
  from assms Inr have evs: "evs = Opened f # fst (snd ?r) @ [Closed f]"
    by (auto simp: extract_pdf_statistics_def split: prod.splits sum.splits)
  show ?thesis
    using assms pr evs
    by (intro exI[of _ "fst (snd ?r)"]) (simp add: files_loop_Cons Let_def del: files_loop.simps)
qed

lemma pages_loop_length:
  "snd (snd (pages_loop env f out fmt n k pgs fs)) = Inr rows \<Longrightarrow> length rows = length pgs"
proof (induction pgs arbitrary: k fs rows)
  case Nil
  then show ?case by simp
next
  case (Cons pg pgs)
  from Cons.prems show ?case
    by (auto simp: pages_loop_Cons Let_def simp del: pages_loop.simps
          split: sum.splits dest: Cons.IH)
qed

lemma try_save_tiff_sample:
  "try_save sample_env [11, 12, 13] path ''tiff'' fs
     = Inr (fs(path \<mapsto> [10, 200, 20, 210, 30, 220, 0, 255]), [Printed (SavedImage path)])"
  by (simp add: try_save_def sample_env_def save_to_def lower_samples rgba_img_def)

lemma names_good_tiff:
  "image_name ''in/good.pdf'' ''tiff'' 2 2 = ''good_2_of_2_largest_image.tiff''"
  "split_name ''in/leaky.pdf'' (Suc 0) 2 = ''leaky_1_of_2.pdf''"
  "path_join ''out'' ''leaky_1_of_2.pdf'' = ''out/leaky_1_of_2.pdf''"
  by (simp_all add: split_name_def image_name_def basename_def splitext_def path_join_def
        splitext_loop.simps page_stem_def str_nat.simps format_ext_def lower_samples Let_def)

lemma vector_page_step:
  "\<exists>row. page_step sample_env f ''out'' fmt n k vector_page fs
     = (fs(path_join ''out'' (split_name f k n) \<mapsto> replicate 2048 0), [], Inr row)"
proof -
  have h1: "page_pdf vector_page = Inr (replicate 2048 0)" and h2: "images vector_page = []"
    by (simp_all add: vector_page_def)
  from page_step_no_images [OF h1 h2, where env = sample_env and f = f
      and out = "''out''" and fmt = fmt and n = n and k = k and fs = fs]
  show ?thesis by auto
qed

lemma raster_page_step_tiff:
  "\<exists>row. page_step sample_env ''in/good.pdf'' ''out'' ''tiff'' 2 2 raster_page fs
     = (fs(''out/good_2_of_2.pdf'' \<mapsto> [37, 80, 68, 70],
           ''out/good_2_of_2_largest_image.tiff'' \<mapsto> [10, 200, 20, 210, 30, 220, 0, 255]),
        [Printed (WarnExtractFailed (LibraryError ''bad xref'')),
         Printed (SavedImage ''out/good_2_of_2_largest_image.tiff'')],
        Inr row)"
proof -
  have h1: "page_pdf raster_page = Inr [37, 80, 68, 70]" and h2: "images raster_page \<noteq> []"
    by (simp_all add: raster_page_def)
  from page_step_images [OF h1 h2, where env = sample_env and f = "''in/good.pdf''"
      and out = "''out''" and fmt = "''tiff''" and n = 2 and k = 2 and fs = fs]
  show ?thesis
    by (auto simp: names_good names_good_tiff joins extract_largest_image_def
          select_raster_page try_save_tiff_sample)
qed

lemma broken_page_step:
  "page_step sample_env f out fmt n k broken_page fs = (fs, [], Inl OSError)"
  by (rule page_step_fail) (simp add: broken_page_def)

lemma extract_good_tiff:
  "\<exists>rows. extract_pdf_statistics sample_env ''in/good.pdf'' ''out'' ''tiff'' fs
     = (fs(''out/good_1_of_2.pdf'' \<mapsto> replicate 2048 0,
           ''out/good_2_of_2.pdf'' \<mapsto> [37, 80, 68, 70],
           ''out/good_2_of_2_largest_image.tiff'' \<mapsto> [10, 200, 20, 210, 30, 220, 0, 255]),
        [Opened ''in/good.pdf'',
         Printed (WarnExtractFailed (LibraryError ''bad xref'')),
         Printed (SavedImage ''out/good_2_of_2_largest_image.tiff''),
         Closed ''in/good.pdf''],
        Inr rows)
     \<and> length rows = 2"
proof -
  obtain row1 where r1: "page_step sample_env ''in/good.pdf'' ''out'' ''tiff'' 2 (Suc 0) vector_page fs
     = (fs(''out/good_1_of_2.pdf'' \<mapsto> replicate 2048 0), [], Inr row1)"
    using vector_page_step[of "''in/good.pdf''" "''tiff''" 2 "Suc 0" fs]
    by (auto simp: names_good joins)
  obtain row2 where r2: "page_step sample_env ''in/good.pdf'' ''out'' ''tiff'' 2 2 raster_page
        (fs(''out/good_1_of_2.pdf'' \<mapsto> replicate 2048 0))
     = (fs(''out/good_1_of_2.pdf'' \<mapsto> replicate 2048 0,
           ''out/good_2_of_2.pdf'' \<mapsto> [37, 80, 68, 70],
           ''out/good_2_of_2_largest_image.tiff'' \<mapsto> [10, 200, 20, 210, 30, 220, 0, 255]),
        [Printed (WarnExtractFailed (LibraryError ''bad xref'')),
         Printed (SavedImage ''out/good_2_of_2_largest_image.tiff'')],
        Inr row2)"
    using raster_page_step_tiff[of "fs(''out/good_1_of_2.pdf'' \<mapsto> replicate 2048 0)"] by auto
  have two: "Suc (Suc 0) = 2" by simp
  have op: "fitz_open sample_env ''in/good.pdf'' = Inr [vector_page, raster_page]"
    by (simp add: sample_env_def)
  show ?thesis
    by (simp add: extract_pdf_statistics_def op r1 two r2)
qed

lemma extract_leaky:
  "extract_pdf_statistics sample_env ''in/leaky.pdf'' ''out'' fmt fs
     = (fs(''out/leaky_1_of_2.pdf'' \<mapsto> replicate 2048 0), [Opened ''in/leaky.pdf''], Inl OSError)"
proof -
  obtain row1 where r1: "page_step sample_env ''in/leaky.pdf'' ''out'' fmt 2 (Suc 0) vector_page fs
     = (fs(''out/leaky_1_of_2.pdf'' \<mapsto> replicate 2048 0), [], Inr row1)"
    using vector_page_step[of "''in/leaky.pdf''" fmt 2 "Suc 0" fs]
    by (auto simp: names_good_tiff)
  have two: "Suc (Suc 0) = 2" by simp
  have op: "fitz_open sample_env ''in/leaky.pdf'' = Inr [vector_page, broken_page]"
    by (simp add: sample_env_def)
  show ?thesis
    by (simp add: extract_pdf_statistics_def op r1 two broken_page_step)
qed

lemma extract_corrupt:
  "extract_pdf_statistics sample_env ''in/corrupt.pdf'' out fmt fs
     = (fs, [], Inl (LibraryError ''cannot open''))"
  by (simp add: extract_pdf_statistics_def sample_env_def)

theorem document_closed_after_success_witness:
  "fst (snd (extract_pdf_statistics sample_env ''in/good.pdf'' ''out'' ''tiff'' Map.empty))
     = [Opened ''in/good.pdf'',
        Printed (WarnExtractFailed (LibraryError ''bad xref'')),
        Printed (SavedImage ''out/good_2_of_2_largest_image.tiff''),
        Closed ''in/good.pdf'']
   \<and> fst (snd (files_loop sample_env ''out'' ''tiff'' [''in/good.pdf'', ''in/corrupt.pdf''] Map.empty))
     = [Printed (Processing ''in/good.pdf''),
        Opened ''in/good.pdf'',
        Printed (WarnExtractFailed (LibraryError ''bad xref'')),
        Printed (SavedImage ''out/good_2_of_2_largest_image.tiff''),
        Closed ''in/good.pdf'',
        Printed (Processing ''in/corrupt.pdf''),
        Printed (ErrorProcessing ''in/corrupt.pdf'' (LibraryError ''cannot open''))]"
proof -
  let ?fs1 = "[''out/good_1_of_2.pdf'' \<mapsto> replicate 2048 0,
           ''out/good_2_of_2.pdf'' \<mapsto> [37, 80, 68, 70],
           ''out/good_2_of_2_largest_image.tiff'' \<mapsto> [10, 200, 20, 210, 30, 220, 0, 255]]"
  let ?evs = "[Opened ''in/good.pdf'',
        Printed (WarnExtractFailed (LibraryError ''bad xref'')),
        Printed (SavedImage ''out/good_2_of_2_largest_image.tiff''),
        Closed ''in/good.pdf'']"
  from extract_good_tiff[of Map.empty] obtain rows where
    ex: "extract_pdf_statistics sample_env ''in/good.pdf'' ''out'' ''tiff'' Map.empty
           = (?fs1, ?evs, Inr rows)"
    by auto
  from document_closed_after_success [OF ex, of "[''in/corrupt.pdf'']"] obtain mid where
    mid: "?evs = Opened ''in/good.pdf'' # mid @ [Closed ''in/good.pdf'']"
    and fl: "files_loop sample_env ''out'' ''tiff'' [''in/good.pdf'', ''in/corrupt.pdf''] Map.empty =
               (fst (files_loop sample_env ''out'' ''tiff'' [''in/corrupt.pdf''] ?fs1),
                Printed (Processing ''in/good.pdf'') # Opened ''in/good.pdf'' # mid @ Closed ''in/good.pdf''
                  # fst (snd (files_loop sample_env ''out'' ''tiff'' [''in/corrupt.pdf''] ?fs1)),
                rows @ snd (snd (files_loop sample_env ''out'' ''tiff'' [''in/corrupt.pdf''] ?fs1)))"
    by blast
  from mid have m: "mid = [Printed (WarnExtractFailed (LibraryError ''bad xref'')),
        Printed (SavedImage ''out/good_2_of_2_largest_image.tiff'')]"
    by (simp add: append_eq_Cons_conv)
  show ?thesis
    by (simp add: ex fl m extract_corrupt)
qed

text \<open>
  C7 as stated fails on the failure path: a document that opens and whose second page
  cannot be written is never closed, and the next document is opened after it.
\<close>

theorem failed_document_left_open_counterexample:
  "extract_pdf_statistics sample_env ''in/leaky.pdf'' ''out'' ''tiff'' Map.empty
     = ([''out/leaky_1_of_2.pdf'' \<mapsto> replicate 2048 0], [Opened ''in/leaky.pdf''], Inl OSError)
   \<and> fst (snd (files_loop sample_env ''out'' ''tiff'' [''in/leaky.pdf'', ''in/good.pdf''] Map.empty))
     = [Printed (Processing ''in/leaky.pdf''),
        Opened ''in/leaky.pdf'',
        Printed (ErrorProcessing ''in/leaky.pdf'' OSError),
        Printed (Processing ''in/good.pdf''),
        Opened ''in/good.pdf'',
        Printed (WarnExtractFailed (LibraryError ''bad xref'')),
        Printed (SavedImage ''out/good_2_of_2_largest_image.tiff''),
        Closed ''in/good.pdf'']
   \<and> Closed ''in/leaky.pdf''
       \<notin> set (fst (snd (files_loop sample_env ''out'' ''tiff'' [''in/leaky.pdf'', ''in/good.pdf''] Map.empty)))"
proof -
  from extract_good_tiff[of "[''out/leaky_1_of_2.pdf'' \<mapsto> replicate 2048 0]"] obtain rows where
    ex: "extract_pdf_statistics sample_env ''in/good.pdf'' ''out'' ''tiff''
           [''out/leaky_1_of_2.pdf'' \<mapsto> replicate 2048 0]
           = ([''out/leaky_1_of_2.pdf'' \<mapsto> replicate 2048 0,
               ''out/good_1_of_2.pdf'' \<mapsto> replicate 2048 0,
               ''out/good_2_of_2.pdf'' \<mapsto> [37, 80, 68, 70],
               ''out/good_2_of_2_largest_image.tiff'' \<mapsto> [10, 200, 20, 210, 30, 220, 0, 255]],
              [Opened ''in/good.pdf'',
               Printed (WarnExtractFailed (LibraryError ''bad xref'')),
               Printed (SavedImage ''out/good_2_of_2_largest_image.tiff''),
               Closed ''in/good.pdf''],
              Inr rows)"
    by auto
  show ?thesis
    by (simp add: extract_leaky ex)
qed

theorem batch_skips_failed_documents_witness:
  "''in/corrupt.pdf'' \<in> set [''in/corrupt.pdf'', ''in/good.pdf'']
   \<and> failure_of sample_env ''out'' ''tiff'' ''in/corrupt.pdf'' = Some (LibraryError ''cannot open'')
   \<and> length (snd (snd (process_all_pdfs sample_env ''in'' [''in/corrupt.pdf'', ''in/good.pdf'']
                ''out'' ''tiff'' Map.empty))) = 2
   \<and> Printed (ErrorProcessing ''in/corrupt.pdf'' (LibraryError ''cannot open''))
       \<in> set (fst (snd (process_all_pdfs sample_env ''in'' [''in/corrupt.pdf'', ''in/good.pdf'']
                ''out'' ''tiff'' Map.empty)))"
proof -
  have mem: "''in/corrupt.pdf'' \<in> set [''in/corrupt.pdf'', ''in/good.pdf'']" by simp
  have fail: "failure_of sample_env ''out'' ''tiff'' ''in/corrupt.pdf''
      = Some (LibraryError ''cannot open'')"
    by (simp add: failure_of_def extract_corrupt)
  have none: "rows_of sample_env ''out'' ''tiff'' ''in/corrupt.pdf'' = []"
    by (simp add: rows_of_def extract_corrupt)
  have two: "length (rows_of sample_env ''out'' ''tiff'' ''in/good.pdf'') = 2"
    using extract_good_tiff[of Map.empty] by (auto simp: rows_of_def)
  note t = batch_skips_failed_documents [of sample_env "''in''" "[''in/corrupt.pdf'', ''in/good.pdf'']" "''out''" "''tiff''"
      Map.empty "''in/corrupt.pdf''" "LibraryError ''cannot open''"]
  from t mem fail have
    "snd (snd (process_all_pdfs sample_env ''in'' [''in/corrupt.pdf'', ''in/good.pdf'']
                ''out'' ''tiff'' Map.empty))
       = concat (map (rows_of sample_env ''out'' ''tiff'') [''in/corrupt.pdf'', ''in/good.pdf''])"
    "Printed (ErrorProcessing ''in/corrupt.pdf'' (LibraryError ''cannot open''))
       \<in> set (fst (snd (process_all_pdfs sample_env ''in'' [''in/corrupt.pdf'', ''in/good.pdf'']
                ''out'' ''tiff'' Map.empty)))"
    by blast+
  with mem fail none two show ?thesis by simp
qed

subsection \<open>The conversion for JPEG\<close>

lemma blend8_transparent: "blend8 0 255 v = 255"
  by (simp add: blend8_def Let_def)

lemma jpeg_prepare_rgba:
  "im_mode img = ''RGBA'' \<Longrightarrow> im_bands img = [r, g, b, a]
     \<Longrightarrow> jpeg_prepare env img = Inr (paste (Image_new_RGB (im_size img) 255) img (Some a))"
  by (simp add: jpeg_prepare_def tuple_index_def split_def Let_def)

lemma jpeg_prepare_la:
  "im_mode img = ''LA'' \<Longrightarrow> length (im_bands img) = 2 \<Longrightarrow> jpeg_prepare env img = Inl IndexError"
  by (simp add: jpeg_prepare_def tuple_index_def split_def Let_def)

lemma jpeg_prepare_other:
  "im_mode img \<noteq> ''RGBA'' \<Longrightarrow> im_mode img \<noteq> ''LA'' \<Longrightarrow> im_mode img \<noteq> ''RGB''
     \<Longrightarrow> jpeg_prepare env img = image_convert env img ''RGB''"
  by (simp add: jpeg_prepare_def)

lemma replicate_two: "replicate 2 x = [x, x]" and replicate_three: "replicate 3 x = [x, x, x]"
  by (simp_all add: numeral_2_eq_2 numeral_3_eq_3)

lemma jpeg_prepare_rgba_sample:
  "jpeg_prepare sample_env rgba_img
     = Inr \<lparr>im_mode = ''RGB'', im_size = (2, 1), im_bands = [[255, 200], [255, 210], [255, 220]]\<rparr>"
  by (simp add: jpeg_prepare_def rgba_img_def tuple_index_def split_def Let_def paste_def
        Image_new_RGB_def storage_bands_def blend8_def replicate_two replicate_three)

end
